theory Spec2Isabelle
  imports Complex_Main "HOL-Library.Word"
begin

section \<open>GPXParser.c: the document model\<close>

text \<open>
  Modelled from the spec: the structs are declared in the header of the parser, which is
  not among the sources. Section 3 of the specification lists the entities and their
  fields, and the member names are those that \<^verbatim>\<open>GPXParser.c\<close> uses. A C \<^verbatim>\<open>int\<close> is a
  32-bit word (addition wraps, \<open>sint\<close> reads it). A C \<^verbatim>\<open>double\<close> is a real number, and
  so is a C \<^verbatim>\<open>float\<close>, with the conversion to single precision wherever the code
  converts (section Numbers of the C language). A pointer that the code
  tests against \<^verbatim>\<open>NULL\<close> is an \<open>option\<close>. The string and list members of a struct are
  always present: every constructor of the file stores a string and a list before it
  returns the struct.
\<close>

type_synonym c_int = "32 word"

record GPXData =
  gd_name :: string
  gd_value :: string

record Waypoint =
  wpt_name :: string
  wpt_longitude :: real
  wpt_latitude :: real
  wpt_otherData :: "GPXData list"

record Route =
  rte_name :: string
  rte_waypoints :: "Waypoint list"
  rte_otherData :: "GPXData list"

record TrackSegment =
  seg_waypoints :: "Waypoint list"

record Track =
  trk_name :: string
  trk_segments :: "TrackSegment list"
  trk_otherData :: "GPXData list"

record GPXdoc =
  gpx_namespace :: string
  gpx_version :: real
  gpx_creator :: string
  gpx_waypoints :: "Waypoint list"
  gpx_routes :: "Route list"
  gpx_tracks :: "Track list"

definition SENTINEL_LAT_LON :: real where
  "SENTINEL_LAT_LON = - 200"

definition SENTINEL_VERSION :: real where
  "SENTINEL_VERSION = - 1"

definition MAX_LATITUDE :: real where "MAX_LATITUDE = 90"
definition MIN_LATITUDE :: real where "MIN_LATITUDE = - 90"
definition MAX_LONGITUDE :: real where "MAX_LONGITUDE = 180"
definition MIN_LONGITUDE :: real where "MIN_LONGITUDE = - 180"

definition MIN_LOOP_WPTS :: c_int where "MIN_LOOP_WPTS = 4"
definition DEFAULT_DELTA :: real where "DEFAULT_DELTA = 10"
definition HALF_CIRCLE_DEGREES :: real where "HALF_CIRCLE_DEGREES = 180"

subsection \<open>The list container\<close>

text \<open>
  Modelled from the spec: the list library (\<^verbatim>\<open>initializeList\<close>, \<^verbatim>\<open>insertBack\<close>,
  \<^verbatim>\<open>getFromBack\<close>, \<^verbatim>\<open>getLength\<close>, \<^verbatim>\<open>createIterator\<close>, \<^verbatim>\<open>nextElement\<close>) is not part of
  \<^verbatim>\<open>GPXParser.c\<close>. Following section 4.1 of the specification a container is an ordered
  sequence that keeps insertion order: \<^verbatim>\<open>insertBack\<close> appends, \<^verbatim>\<open>getFromBack\<close> is the last
  element or \<^verbatim>\<open>NULL\<close>, \<^verbatim>\<open>getLength\<close> the number of elements as an \<^verbatim>\<open>int\<close>, and an
  iterator yields the elements front to back and then \<^verbatim>\<open>NULL\<close>. A
  \<^verbatim>\<open>while((element = nextElement(&iterator)) != NULL)\<close> loop is a recursion over the list.
\<close>

definition insertBack :: "'a list \<Rightarrow> 'a \<Rightarrow> 'a list" where
  "insertBack xs x = xs @ [x]"

definition getFromBack :: "'a list \<Rightarrow> 'a option" where
  "getFromBack xs = (case rev xs of [] \<Rightarrow> None | x # _ \<Rightarrow> Some x)"

definition getLength :: "'a list \<Rightarrow> c_int" where
  "getLength xs = word_of_nat (length xs)"

subsection \<open>The count getters\<close>

text \<open>The loop \<^verbatim>\<open>while ((element = nextElement(&iterator)) != NULL) count++\<close>.\<close>

fun count_elements :: "'a list \<Rightarrow> c_int \<Rightarrow> c_int" where
  "count_elements [] c = c"
| "count_elements (x # xs) c = count_elements xs (c + 1)"

definition getNumWaypoints :: "GPXdoc option \<Rightarrow> c_int" where
  "getNumWaypoints doc =
     (case doc of None \<Rightarrow> 0 | Some d \<Rightarrow> count_elements (gpx_waypoints d) 0)"

definition getNumRoutes :: "GPXdoc option \<Rightarrow> c_int" where
  "getNumRoutes doc =
     (case doc of None \<Rightarrow> 0 | Some d \<Rightarrow> count_elements (gpx_routes d) 0)"

definition getNumRouteWaypoints :: "Route option \<Rightarrow> c_int" where
  "getNumRouteWaypoints route =
     (case route of None \<Rightarrow> 0 | Some r \<Rightarrow> count_elements (rte_waypoints r) 0)"

definition getNumTracks :: "GPXdoc option \<Rightarrow> c_int" where
  "getNumTracks doc =
     (case doc of None \<Rightarrow> 0 | Some d \<Rightarrow> count_elements (gpx_tracks d) 0)"

text \<open>The outer loop of \<^verbatim>\<open>getNumSegments\<close>; the inner one counts the segments of a track.\<close>

fun count_segments :: "Track list \<Rightarrow> c_int \<Rightarrow> c_int" where
  "count_segments [] c = c"
| "count_segments (t # ts) c = count_segments ts (count_elements (trk_segments t) c)"

definition getNumSegments :: "GPXdoc option \<Rightarrow> c_int" where
  "getNumSegments doc =
     (case doc of None \<Rightarrow> 0 | Some d \<Rightarrow> count_segments (gpx_tracks d) 0)"

text \<open>
  \<^verbatim>\<open>getNumGPXData\<close>: one loop over the waypoints of a container (a non-empty name counts,
  then every entry of \<^verbatim>\<open>otherData\<close>), one over the segments of a track, one over the
  tracks and one over the routes. The document's waypoints come first, then the tracks,
  then the routes.
\<close>

fun count_waypoint_data :: "Waypoint list \<Rightarrow> c_int \<Rightarrow> c_int" where
  "count_waypoint_data [] c = c"
| "count_waypoint_data (w # ws) c =
     count_waypoint_data ws
       (count_elements (wpt_otherData w) (if wpt_name w \<noteq> '''' then c + 1 else c))"

fun count_segment_data :: "TrackSegment list \<Rightarrow> c_int \<Rightarrow> c_int" where
  "count_segment_data [] c = c"
| "count_segment_data (s # ss) c =
     count_segment_data ss (count_waypoint_data (seg_waypoints s) c)"

fun count_track_data :: "Track list \<Rightarrow> c_int \<Rightarrow> c_int" where
  "count_track_data [] c = c"
| "count_track_data (t # ts) c =
     count_track_data ts
       (count_segment_data (trk_segments t)
          (count_elements (trk_otherData t) (if trk_name t \<noteq> '''' then c + 1 else c)))"

fun count_route_data :: "Route list \<Rightarrow> c_int \<Rightarrow> c_int" where
  "count_route_data [] c = c"
| "count_route_data (r # rs) c =
     count_route_data rs
       (count_waypoint_data (rte_waypoints r)
          (count_elements (rte_otherData r) (if rte_name r \<noteq> '''' then c + 1 else c)))"

definition getNumGPXData :: "GPXdoc option \<Rightarrow> c_int" where
  "getNumGPXData doc =
     (case doc of
        None \<Rightarrow> 0
      | Some d \<Rightarrow>
          count_route_data (gpx_routes d)
            (count_track_data (gpx_tracks d)
               (count_waypoint_data (gpx_waypoints d) 0)))"

text \<open>
  What the count is a count of: every waypoint of the document (its own, those of its
  routes, those of the segments of its tracks), the extension fields and the named
  entities.
\<close>

definition track_waypoints :: "Track \<Rightarrow> Waypoint list" where
  "track_waypoints t = concat (map seg_waypoints (trk_segments t))"

definition all_waypoints :: "GPXdoc \<Rightarrow> Waypoint list" where
  "all_waypoints d =
     gpx_waypoints d @ concat (map rte_waypoints (gpx_routes d))
       @ concat (map track_waypoints (gpx_tracks d))"

definition num_extension_fields :: "GPXdoc \<Rightarrow> nat" where
  "num_extension_fields d =
     sum_list (map (\<lambda>w. length (wpt_otherData w)) (all_waypoints d))
       + sum_list (map (\<lambda>r. length (rte_otherData r)) (gpx_routes d))
       + sum_list (map (\<lambda>t. length (trk_otherData t)) (gpx_tracks d))"

definition num_named_entities :: "GPXdoc \<Rightarrow> nat" where
  "num_named_entities d =
     length (filter (\<lambda>w. wpt_name w \<noteq> '''') (all_waypoints d))
       + length (filter (\<lambda>r. rte_name r \<noteq> '''') (gpx_routes d))
       + length (filter (\<lambda>t. trk_name t \<noteq> '''') (gpx_tracks d))"

definition example_doc :: GPXdoc where
  "example_doc =
     \<lparr>gpx_namespace = ''http://www.topografix.com/GPX/1/1'', gpx_version = 11 / 10,
      gpx_creator = ''me'',
      gpx_waypoints =
        [\<lparr>wpt_name = ''A'', wpt_longitude = - 75, wpt_latitude = 45,
          wpt_otherData = [\<lparr>gd_name = ''ele'', gd_value = ''12.5''\<rparr>]\<rparr>],
      gpx_routes =
        [\<lparr>rte_name = ''R'',
          rte_waypoints =
            [\<lparr>wpt_name = '''', wpt_longitude = 0, wpt_latitude = 0, wpt_otherData = []\<rparr>],
          rte_otherData = []\<rparr>],
      gpx_tracks =
        [\<lparr>trk_name = '''',
          trk_segments =
            [\<lparr>seg_waypoints =
               [\<lparr>wpt_name = ''P'', wpt_longitude = 1, wpt_latitude = 1,
                 wpt_otherData = []\<rparr>]\<rparr>],
          trk_otherData = []\<rparr>]\<rparr>"

section \<open>Validation\<close>

text \<open>
  The validators read the structs they are given and return a \<^verbatim>\<open>bool\<close>. To state what
  they leave behind, each one returns its answer together with the struct as it is after
  the call. A list is walked with an iterator and the walk stops at the first element
  that is not valid. The tests of a string or list member against \<^verbatim>\<open>NULL\<close> have no branch
  here, since these members are always present.
\<close>

definition validateGPXData :: "GPXData \<Rightarrow> bool \<times> GPXData" where
  "validateGPXData gpxData =
     (if gd_name gpxData = '''' \<or> gd_value gpxData = '''' then (False, gpxData)
      else (True, gpxData))"

fun validate_each :: "('a \<Rightarrow> bool \<times> 'a) \<Rightarrow> 'a list \<Rightarrow> bool \<times> 'a list" where
  "validate_each v [] = (True, [])"
| "validate_each v (x # xs) =
     (case v x of
        (ok, x') \<Rightarrow>
          if ok = False then (False, x' # xs)
          else (case validate_each v xs of (r, xs') \<Rightarrow> (r, x' # xs')))"

definition validateWaypoint :: "Waypoint \<Rightarrow> bool \<times> Waypoint" where
  "validateWaypoint waypoint =
     (if wpt_latitude waypoint = SENTINEL_LAT_LON \<or> wpt_latitude waypoint < MIN_LATITUDE
         \<or> wpt_latitude waypoint > MAX_LATITUDE then (False, waypoint)
      else if wpt_longitude waypoint = SENTINEL_LAT_LON
         \<or> wpt_longitude waypoint < MIN_LONGITUDE
         \<or> wpt_longitude waypoint > MAX_LONGITUDE then (False, waypoint)
      else (case validate_each validateGPXData (wpt_otherData waypoint) of
              (ok, od) \<Rightarrow> (ok, waypoint\<lparr>wpt_otherData := od\<rparr>)))"

definition validateRoute :: "Route \<Rightarrow> bool \<times> Route" where
  "validateRoute route =
     (case validate_each validateGPXData (rte_otherData route) of
        (ok, od) \<Rightarrow>
          if ok = False then (False, route\<lparr>rte_otherData := od\<rparr>)
          else (case validate_each validateWaypoint (rte_waypoints route) of
                  (ok2, ws) \<Rightarrow> (ok2, route\<lparr>rte_otherData := od, rte_waypoints := ws\<rparr>)))"

definition validateTrackSegment :: "TrackSegment \<Rightarrow> bool \<times> TrackSegment" where
  "validateTrackSegment trackSegment =
     (case validate_each validateWaypoint (seg_waypoints trackSegment) of
        (ok, ws) \<Rightarrow> (ok, trackSegment\<lparr>seg_waypoints := ws\<rparr>))"

definition validateTrack :: "Track \<Rightarrow> bool \<times> Track" where
  "validateTrack track =
     (case validate_each validateTrackSegment (trk_segments track) of
        (ok, ss) \<Rightarrow>
          if ok = False then (False, track\<lparr>trk_segments := ss\<rparr>)
          else (case validate_each validateGPXData (trk_otherData track) of
                  (ok2, od) \<Rightarrow> (ok2, track\<lparr>trk_segments := ss, trk_otherData := od\<rparr>)))"

definition IsValidGPXdoc :: "GPXdoc \<Rightarrow> bool \<times> GPXdoc" where
  "IsValidGPXdoc gpx =
     (if gpx_namespace gpx = '''' then (False, gpx)
      else if gpx_version gpx = SENTINEL_VERSION then (False, gpx)
      else if gpx_creator gpx = '''' then (False, gpx)
      else (case validate_each validateWaypoint (gpx_waypoints gpx) of
              (ok, ws) \<Rightarrow>
                if ok = False then (False, gpx\<lparr>gpx_waypoints := ws\<rparr>)
                else (case validate_each validateRoute (gpx_routes gpx) of
                        (ok2, rs) \<Rightarrow>
                          if ok2 = False
                          then (False, gpx\<lparr>gpx_waypoints := ws, gpx_routes := rs\<rparr>)
                          else (case validate_each validateTrack (gpx_tracks gpx) of
                                  (ok3, ts) \<Rightarrow>
                                    (ok3, gpx\<lparr>gpx_waypoints := ws, gpx_routes := rs,
                                            gpx_tracks := ts\<rparr>)))))"

section \<open>Numbers of the C language\<close>

text \<open>
  What the model makes of undefined behaviour in the C code: a fault. The fixed-size
  character buffers of the code are taken to be large enough; allocation is taken to
  succeed.
\<close>

datatype fault =
  NullDereference | UninitialisedRead | OutOfBoundsRead | FloatToIntRange | FloatRange

text \<open>
  Rounding to a whole number, to the even one from half way between two.
\<close>

definition round_half_even :: "real \<Rightarrow> int" where
  "round_half_even x =
     (let f = \<lfloor>x\<rfloor>
      in if x - real_of_int f < 1 / 2 then f
         else if 1 / 2 < x - real_of_int f then f + 1
         else if even f then f else f + 1)"

text \<open>
  A \<^verbatim>\<open>float\<close> is a number of IEEE 754 single precision: with the binary exponent \<open>e\<close> of
  a number, from -126 (which the subnormal numbers share) to 127, the numbers of that
  exponent are the whole multiples of \<open>2^(e - 23)\<close>. \<^verbatim>\<open>float_exponent\<close> looks for the
  exponent from 127 downwards; \<^verbatim>\<open>nearest_float\<close> rounds to the nearest multiple, to the
  even one from half way. A value is converted to \<^verbatim>\<open>float\<close> wherever the code stores it
  in a \<^verbatim>\<open>float\<close> variable, passes it for a \<^verbatim>\<open>float\<close> parameter, or computes it from
  \<^verbatim>\<open>float\<close> operands (an operation on \<^verbatim>\<open>float\<close> operands is evaluated in \<^verbatim>\<open>float\<close>, as
  with \<^verbatim>\<open>FLT_EVAL_METHOD\<close> 0); beyond \<^verbatim>\<open>FLT_MAX\<close> the conversion is undefined in C.

  A \<^verbatim>\<open>double\<close> is a real number in the model: arithmetic in double precision and the
  functions of the mathematical library are exact, and \<^verbatim>\<open>M_PI\<close> is \<open>\<pi>\<close>; what a platform
  computes in double precision differs from it by the rounding of each operation.
  Infinite values are outside the model. The value that is not a number is in it where
  the code can produce one, as the square root of a negative number.
\<close>

fun float_exponent_from :: "nat \<Rightarrow> real \<Rightarrow> int" where
  "float_exponent_from 0 a = - 126"
| "float_exponent_from (Suc n) a =
     (if 2 powi (int n - 125) \<le> a then int n - 125 else float_exponent_from n a)"

definition float_exponent :: "real \<Rightarrow> int" where
  "float_exponent x = float_exponent_from 253 \<bar>x\<bar>"

definition float_ulp :: "real \<Rightarrow> real" where
  "float_ulp x = 2 powi (float_exponent x - 23)"

definition nearest_float :: "real \<Rightarrow> real" where
  "nearest_float x = float_ulp x * real_of_int (round_half_even (x / float_ulp x))"

definition FLT_MAX :: real where
  "FLT_MAX = 2 ^ 128 - 2 ^ 104"

definition to_float :: "real \<Rightarrow> fault + real" where
  "to_float x = (if \<bar>x\<bar> \<le> FLT_MAX then Inr (nearest_float x) else Inl FloatRange)"

text \<open>The value \<open>x\<close> converted to \<^verbatim>\<open>float\<close> and handed on.\<close>

definition with_float :: "real \<Rightarrow> (real \<Rightarrow> fault + 'a) \<Rightarrow> fault + 'a" where
  "with_float x k = (case to_float x of Inl f \<Rightarrow> Inl f | Inr y \<Rightarrow> k y)"

text \<open>
  What a \<^verbatim>\<open>float\<close> variable holds when it may hold the value that is not a number. A sum
  with that value is that value again, and every comparison with it is false.
\<close>

datatype c_float = Number real | NaN

definition float_add :: "c_float \<Rightarrow> c_float \<Rightarrow> fault + c_float" where
  "float_add x y =
     (case (x, y) of
        (Number a, Number b) \<Rightarrow> with_float (a + b) (\<lambda>s. Inr (Number s))
      | _ \<Rightarrow> Inr NaN)"

definition float_le :: "c_float \<Rightarrow> real \<Rightarrow> bool" where
  "float_le x y = (case x of Number a \<Rightarrow> a \<le> y | NaN \<Rightarrow> False)"

section \<open>Geometry\<close>

text \<open>
  \<^verbatim>\<open>atan2\<close> of the C library on real numbers: the angle of the point \<open>(x, y)\<close>, in
  \<open>(-\<pi>, \<pi>]\<close>, and 0 at the origin.
\<close>

definition atan2 :: "real \<Rightarrow> real \<Rightarrow> real" where
  "atan2 y x =
     (if 0 < x then arctan (y / x)
      else if x < 0 \<and> 0 \<le> y then arctan (y / x) + pi
      else if x < 0 \<and> y < 0 then arctan (y / x) - pi
      else if 0 < y then pi / 2
      else if y < 0 then - (pi / 2)
      else 0)"

text \<open>
  The haversine formula. The four parameters are of type \<^verbatim>\<open>float\<close>, and the two
  differences \<^verbatim>\<open>destLat - srcLat\<close> and \<^verbatim>\<open>destLon - srcLon\<close> are differences of
  \<^verbatim>\<open>float\<close> operands; everything else is computed in \<^verbatim>\<open>double\<close> until the result is
  converted to \<^verbatim>\<open>float\<close>. The rounded difference of the latitudes can bring the number
  \<open>a\<close> below 0 or above 1: then one of the square roots, and with it the result, is not a
  number.
\<close>

definition computeDistanceBetweenWaypoints ::
  "real \<Rightarrow> real \<Rightarrow> real \<Rightarrow> real \<Rightarrow> fault + c_float" where
  "computeDistanceBetweenWaypoints srcLat' srcLon' destLat' destLon' =
     with_float srcLat' (\<lambda>srcLat. with_float srcLon' (\<lambda>srcLon.
     with_float destLat' (\<lambda>destLat. with_float destLon' (\<lambda>destLon.
     with_float (destLat - srcLat) (\<lambda>latDifference.
     with_float (destLon - srcLon) (\<lambda>lonDifference.
       let earthMeanRadius = 6371000;
           srcLatRadians = srcLat * pi / HALF_CIRCLE_DEGREES;
           destLatRadians = destLat * pi / HALF_CIRCLE_DEGREES;
           distLat = latDifference * pi / HALF_CIRCLE_DEGREES;
           distLon = lonDifference * pi / HALF_CIRCLE_DEGREES;
           a = sin (distLat / 2) * sin (distLat / 2)
               + cos srcLatRadians * cos destLatRadians * sin (distLon / 2) * sin (distLon / 2)
       in if a < 0 \<or> 1 < a then Inr NaN
          else with_float (earthMeanRadius * (2 * atan2 (sqrt a) (sqrt (1 - a))))
                 (\<lambda>distance. Inr (Number distance))))))))"

text \<open>
  The conversion of a \<^verbatim>\<open>float\<close> to an \<^verbatim>\<open>int\<close> drops the fraction (towards zero); it is
  undefined in C when the result does not fit, which is \<open>None\<close> here.
\<close>

definition float_to_int :: "real \<Rightarrow> c_int option" where
  "float_to_int x =
     (let t = (if 0 \<le> x then \<lfloor>x\<rfloor> else \<lceil>x\<rceil>)
      in if - (2 ^ 31) \<le> t \<and> t < 2 ^ 31 then Some (word_of_int t) else None)"

text \<open>
  \<^verbatim>\<open>round10\<close>: the sum \<^verbatim>\<open>len + 5\<close> and the quotient by 10 are computed in \<^verbatim>\<open>float\<close>,
  the quotient is converted to \<^verbatim>\<open>int\<close>, and the product by 10 back to \<^verbatim>\<open>float\<close>. The
  conversion to \<^verbatim>\<open>int\<close> of the value that is not a number is undefined.
\<close>

definition round10 :: "c_float \<Rightarrow> fault + real" where
  "round10 len' =
     (case len' of
        NaN \<Rightarrow> Inl FloatToIntRange
      | Number x \<Rightarrow>
          with_float x (\<lambda>len. with_float (len + 5) (\<lambda>sum. with_float (sum / 10) (\<lambda>quotient.
            case float_to_int quotient of
              None \<Rightarrow> Inl FloatToIntRange
            | Some div10 \<Rightarrow> to_float (real_of_int (sint (div10 * 10)))))))"

text \<open>The reading of the specification: the length rounded up to a multiple of 10.\<close>

definition rounded_up_to_10 :: "real \<Rightarrow> real" where
  "rounded_up_to_10 len = 10 * real_of_int \<lceil>len / 10\<rceil>"

text \<open>
  The loop of \<^verbatim>\<open>getRouteLen\<close> and the inner loop of \<^verbatim>\<open>getTrackLen\<close>, on the state
  \<open>(count, tempLat, tempLon, length)\<close>. In \<^verbatim>\<open>getTrackLen\<close> the test is
  \<^verbatim>\<open>count == 0 && segCount == 0\<close>, and \<^verbatim>\<open>count\<close> is not reset between segments. The
  three variables of the state other than the counter are of type \<^verbatim>\<open>float\<close>.
\<close>

type_synonym len_state = "c_int \<times> real \<times> real \<times> c_float"

fun route_len_loop :: "Waypoint list \<Rightarrow> len_state \<Rightarrow> fault + len_state" where
  "route_len_loop [] st = Inr st"
| "route_len_loop (wpt # ws) (count, tempLat, tempLon, routeLength) =
     (if count = 0
      then with_float (wpt_latitude wpt) (\<lambda>lat. with_float (wpt_longitude wpt) (\<lambda>lon.
             route_len_loop ws (count + 1, lat, lon, routeLength)))
      else (case computeDistanceBetweenWaypoints tempLat tempLon
                   (wpt_latitude wpt) (wpt_longitude wpt) of
              Inl f \<Rightarrow> Inl f
            | Inr distance \<Rightarrow>
                (case float_add routeLength distance of
                   Inl f \<Rightarrow> Inl f
                 | Inr routeLength' \<Rightarrow>
                     with_float (wpt_latitude wpt) (\<lambda>lat. with_float (wpt_longitude wpt) (\<lambda>lon.
                       route_len_loop ws (count + 1, lat, lon, routeLength'))))))"

definition getRouteLen :: "Route option \<Rightarrow> fault + c_float" where
  "getRouteLen rt =
     (case rt of
        None \<Rightarrow> Inr (Number 0)
      | Some r \<Rightarrow>
          (case route_len_loop (rte_waypoints r) (0, 0, 0, Number 0) of
             Inl f \<Rightarrow> Inl f
           | Inr (count, tempLat, tempLon, routeLength) \<Rightarrow> Inr routeLength))"

fun segment_len_loop :: "Waypoint list \<Rightarrow> c_int \<Rightarrow> len_state \<Rightarrow> fault + len_state" where
  "segment_len_loop [] segCount st = Inr st"
| "segment_len_loop (wpt # ws) segCount (count, tempLat, tempLon, trackLength) =
     (if count = 0 \<and> segCount = 0
      then with_float (wpt_latitude wpt) (\<lambda>lat. with_float (wpt_longitude wpt) (\<lambda>lon.
             segment_len_loop ws segCount (count + 1, lat, lon, trackLength)))
      else (case computeDistanceBetweenWaypoints tempLat tempLon
                   (wpt_latitude wpt) (wpt_longitude wpt) of
              Inl f \<Rightarrow> Inl f
            | Inr distance \<Rightarrow>
                (case float_add trackLength distance of
                   Inl f \<Rightarrow> Inl f
                 | Inr trackLength' \<Rightarrow>
                     with_float (wpt_latitude wpt) (\<lambda>lat. with_float (wpt_longitude wpt) (\<lambda>lon.
                       segment_len_loop ws segCount (count + 1, lat, lon, trackLength'))))))"

fun track_len_loop :: "TrackSegment list \<Rightarrow> c_int \<Rightarrow> len_state \<Rightarrow> fault + len_state" where
  "track_len_loop [] segCount st = Inr st"
| "track_len_loop (trSeg # ss) segCount st =
     (case segment_len_loop (seg_waypoints trSeg) segCount st of
        Inl f \<Rightarrow> Inl f
      | Inr st' \<Rightarrow> track_len_loop ss (segCount + 1) st')"

definition getTrackLen :: "Track option \<Rightarrow> fault + c_float" where
  "getTrackLen tr =
     (case tr of
        None \<Rightarrow> Inr (Number 0)
      | Some t \<Rightarrow>
          (case track_len_loop (trk_segments t) 0 (0, 0, 0, Number 0) of
             Inl f \<Rightarrow> Inl f
           | Inr (count, tempLat, tempLon, trackLength) \<Rightarrow> Inr trackLength))"

text \<open>
  The loop that \<^verbatim>\<open>isLoopRoute\<close>, \<^verbatim>\<open>isLoopTrack\<close>, \<^verbatim>\<open>getRoutesBetween\<close> and
  \<^verbatim>\<open>getTracksBetween\<close> run over a waypoint list, on the state
  \<open>(numWaypoints, firstLat, firstLon, lastLat, lastLon)\<close>: the waypoint seen while
  \<^verbatim>\<open>numWaypoints\<close> is 0 sets the first pair, every other one the last pair. The four
  coordinates of the state are \<^verbatim>\<open>float\<close> variables, the coordinates of a waypoint are
  of type \<^verbatim>\<open>double\<close>.
\<close>

type_synonym endpoints = "c_int \<times> real \<times> real \<times> real \<times> real"

fun endpoints_loop :: "Waypoint list \<Rightarrow> endpoints \<Rightarrow> fault + endpoints" where
  "endpoints_loop [] st = Inr st"
| "endpoints_loop (wpt # ws) (numWaypoints, firstLat, firstLon, lastLat, lastLon) =
     with_float (wpt_latitude wpt) (\<lambda>lat. with_float (wpt_longitude wpt) (\<lambda>lon.
       endpoints_loop ws
         (if numWaypoints = 0
          then (numWaypoints + 1, lat, lon, lastLat, lastLon)
          else (numWaypoints + 1, firstLat, firstLon, lat, lon))))"

fun segments_endpoints_loop :: "TrackSegment list \<Rightarrow> endpoints \<Rightarrow> fault + endpoints" where
  "segments_endpoints_loop [] st = Inr st"
| "segments_endpoints_loop (trSeg # ss) st =
     (case endpoints_loop (seg_waypoints trSeg) st of
        Inl f \<Rightarrow> Inl f
      | Inr st' \<Rightarrow> segments_endpoints_loop ss st')"

text \<open>
  The loop test calls \<^verbatim>\<open>computeDistanceBetweenWaypoints\<close> once, with the four \<^verbatim>\<open>float\<close>
  variables of the state. The function it calls is a parameter of the model, so
  that what is proved of the loop test holds for the distance as the platform computes
  it, whatever its arithmetic in double precision gives; \<^verbatim>\<open>trackToJSON\<close> and
  \<^verbatim>\<open>routeToJSON\<close> below pass \<^verbatim>\<open>computeDistanceBetweenWaypoints\<close> for it.
\<close>

type_synonym distance_function = "real \<Rightarrow> real \<Rightarrow> real \<Rightarrow> real \<Rightarrow> fault + c_float"

definition loop_test :: "distance_function \<Rightarrow> endpoints \<Rightarrow> real \<Rightarrow> fault + bool" where
  "loop_test distance_fn st delta =
     (case st of
        (numWaypoints, firstLat, firstLon, lastLat, lastLon) \<Rightarrow>
          if sint MIN_LOOP_WPTS \<le> sint numWaypoints
          then (case distance_fn firstLat firstLon lastLat lastLon of
                  Inl f \<Rightarrow> Inl f
                | Inr distance \<Rightarrow> Inr (if float_le distance delta then True else False))
          else Inr False)"

definition isLoopRoute :: "distance_function \<Rightarrow> Route option \<Rightarrow> real \<Rightarrow> fault + bool" where
  "isLoopRoute distance_fn rt delta' =
     with_float delta' (\<lambda>delta.
       case rt of
         None \<Rightarrow> Inr False
       | Some r \<Rightarrow>
           if delta < 0 then Inr False
           else (case endpoints_loop (rte_waypoints r) (0, 0, 0, 0, 0) of
                   Inl f \<Rightarrow> Inl f
                 | Inr st \<Rightarrow> loop_test distance_fn st delta))"

definition isLoopTrack :: "distance_function \<Rightarrow> Track option \<Rightarrow> real \<Rightarrow> fault + bool" where
  "isLoopTrack distance_fn tr delta' =
     with_float delta' (\<lambda>delta.
       case tr of
         None \<Rightarrow> Inr False
       | Some t \<Rightarrow>
           if delta < 0 then Inr False
           else (case segments_endpoints_loop (trk_segments t) (0, 0, 0, 0, 0) of
                   Inl f \<Rightarrow> Inl f
                 | Inr st \<Rightarrow> loop_test distance_fn st delta))"

text \<open>
  The distance between the first and the last waypoint of a sequence, as the distance
  function gives it for the coordinates of the two.
\<close>

definition endpoint_distance :: "distance_function \<Rightarrow> Waypoint list \<Rightarrow> fault + c_float" where
  "endpoint_distance distance_fn ws =
     (case ws of
        [] \<Rightarrow> Inr (Number 0)
      | first # _ \<Rightarrow>
          distance_fn (wpt_latitude first) (wpt_longitude first)
            (wpt_latitude (last ws)) (wpt_longitude (last ws)))"

text \<open>
  Coordinates far inside the range of a \<^verbatim>\<open>float\<close>, so that the difference of two of
  them is in the range as well.
\<close>

definition float_coordinates :: "Waypoint list \<Rightarrow> bool" where
  "float_coordinates ws =
     list_all (\<lambda>w. \<bar>wpt_latitude w\<bar> \<le> 2 ^ 126 \<and> \<bar>wpt_longitude w\<bar> \<le> 2 ^ 126) ws"

text \<open>
  What the loop test needs of the distance function, for such coordinates: it returns a
  distance that is not negative, or the value that is not a number; it takes its
  arguments as \<^verbatim>\<open>float\<close>; and two points with the same coordinates as \<^verbatim>\<open>float\<close> are at
  distance 0. \<^verbatim>\<open>computeDistanceBetweenWaypoints\<close> is such a function (lemma
  \<open>distance_contract_haversine\<close> below).
\<close>

definition distance_contract :: "distance_function \<Rightarrow> bool" where
  "distance_contract distance_fn \<longleftrightarrow>
     (\<forall>a b c d. \<bar>a\<bar> \<le> 2 ^ 126 \<and> \<bar>b\<bar> \<le> 2 ^ 126 \<and> \<bar>c\<bar> \<le> 2 ^ 126 \<and> \<bar>d\<bar> \<le> 2 ^ 126 \<longrightarrow>
        (distance_fn a b c d = Inr NaN \<or> (\<exists>x. distance_fn a b c d = Inr (Number x) \<and> 0 \<le> x))
        \<and> distance_fn (nearest_float a) (nearest_float b) (nearest_float c) (nearest_float d)
            = distance_fn a b c d
        \<and> (nearest_float a = nearest_float c \<and> nearest_float b = nearest_float d \<longrightarrow>
             distance_fn a b c d = Inr (Number 0)))"

text \<open>
  \<^verbatim>\<open>getRoutesBetween\<close>. \<^verbatim>\<open>numWaypoints\<close> and the two coordinate pairs are declared before
  the loop over the routes and are not set again inside it: the state the waypoint loop
  leaves for one route is the state it starts from for the next. Both distances are
  computed before they are compared. The list returned holds the routes of the document
  themselves (its delete function does nothing).
\<close>

fun routes_between_loop ::
  "Route list \<Rightarrow> real \<Rightarrow> real \<Rightarrow> real \<Rightarrow> real \<Rightarrow> real \<Rightarrow> endpoints \<Rightarrow> Route list \<times> bool
     \<Rightarrow> fault + Route list \<times> bool" where
  "routes_between_loop [] sourceLat sourceLong destLat destLong delta st res = Inr res"
| "routes_between_loop (route # rs) sourceLat sourceLong destLat destLong delta st
     (routeList, routesFound) =
     (case endpoints_loop (rte_waypoints route) st of
        Inl f \<Rightarrow> Inl f
      | Inr (numWaypoints, firstLat, firstLon, lastLat, lastLon) \<Rightarrow>
          (case computeDistanceBetweenWaypoints sourceLat sourceLong firstLat firstLon of
             Inl f \<Rightarrow> Inl f
           | Inr srcDistance \<Rightarrow>
               (case computeDistanceBetweenWaypoints destLat destLong lastLat lastLon of
                  Inl f \<Rightarrow> Inl f
                | Inr destDistance \<Rightarrow>
                    if float_le srcDistance delta \<and> float_le destDistance delta
                    then routes_between_loop rs sourceLat sourceLong destLat destLong delta
                           (numWaypoints, firstLat, firstLon, lastLat, lastLon)
                           (insertBack routeList route, True)
                    else routes_between_loop rs sourceLat sourceLong destLat destLong delta
                           (numWaypoints, firstLat, firstLon, lastLat, lastLon)
                           (routeList, routesFound))))"

definition getRoutesBetween ::
  "GPXdoc option \<Rightarrow> real \<Rightarrow> real \<Rightarrow> real \<Rightarrow> real \<Rightarrow> real \<Rightarrow> fault + Route list option" where
  "getRoutesBetween doc sourceLat' sourceLong' destLat' destLong' delta' =
     with_float sourceLat' (\<lambda>sourceLat. with_float sourceLong' (\<lambda>sourceLong.
     with_float destLat' (\<lambda>destLat. with_float destLong' (\<lambda>destLong.
     with_float delta' (\<lambda>delta.
       case doc of
         None \<Rightarrow> Inr None
       | Some d \<Rightarrow>
           (case routes_between_loop (gpx_routes d) sourceLat sourceLong destLat destLong delta
                   (0, 0, 0, 0, 0) ([], False) of
              Inl f \<Rightarrow> Inl f
            | Inr (routeList, routesFound) \<Rightarrow>
                Inr (if routesFound = False then None else Some routeList)))))))"

text \<open>
  \<^verbatim>\<open>getTracksBetween\<close>. The distance test and the \<^verbatim>\<open>insertBack\<close> of the track stand
  inside the loop over the segments of the track, after the loop over the waypoints of
  the segment.
\<close>

fun segments_between_loop ::
  "TrackSegment list \<Rightarrow> Track \<Rightarrow> real \<Rightarrow> real \<Rightarrow> real \<Rightarrow> real \<Rightarrow> real
     \<Rightarrow> endpoints \<times> Track list \<times> bool \<Rightarrow> fault + endpoints \<times> Track list \<times> bool" where
  "segments_between_loop [] track sourceLat sourceLong destLat destLong delta res = Inr res"
| "segments_between_loop (trkSeg # ss) track sourceLat sourceLong destLat destLong delta
     (st, trackList, tracksFound) =
     (case endpoints_loop (seg_waypoints trkSeg) st of
        Inl f \<Rightarrow> Inl f
      | Inr (numWaypoints, firstLat, firstLon, lastLat, lastLon) \<Rightarrow>
          (case computeDistanceBetweenWaypoints sourceLat sourceLong firstLat firstLon of
             Inl f \<Rightarrow> Inl f
           | Inr srcDistance \<Rightarrow>
               (case computeDistanceBetweenWaypoints destLat destLong lastLat lastLon of
                  Inl f \<Rightarrow> Inl f
                | Inr destDistance \<Rightarrow>
                    if float_le srcDistance delta \<and> float_le destDistance delta
                    then segments_between_loop ss track sourceLat sourceLong destLat destLong
                           delta
                           ((numWaypoints, firstLat, firstLon, lastLat, lastLon),
                            insertBack trackList track, True)
                    else segments_between_loop ss track sourceLat sourceLong destLat destLong
                           delta
                           ((numWaypoints, firstLat, firstLon, lastLat, lastLon),
                            trackList, tracksFound))))"

fun tracks_between_loop ::
  "Track list \<Rightarrow> real \<Rightarrow> real \<Rightarrow> real \<Rightarrow> real \<Rightarrow> real
     \<Rightarrow> endpoints \<times> Track list \<times> bool \<Rightarrow> fault + endpoints \<times> Track list \<times> bool" where
  "tracks_between_loop [] sourceLat sourceLong destLat destLong delta res = Inr res"
| "tracks_between_loop (track # ts) sourceLat sourceLong destLat destLong delta res =
     (case segments_between_loop (trk_segments track) track
             sourceLat sourceLong destLat destLong delta res of
        Inl f \<Rightarrow> Inl f
      | Inr res' \<Rightarrow> tracks_between_loop ts sourceLat sourceLong destLat destLong delta res')"

definition getTracksBetween ::
  "GPXdoc option \<Rightarrow> real \<Rightarrow> real \<Rightarrow> real \<Rightarrow> real \<Rightarrow> real \<Rightarrow> fault + Track list option" where
  "getTracksBetween doc sourceLat' sourceLong' destLat' destLong' delta' =
     with_float sourceLat' (\<lambda>sourceLat. with_float sourceLong' (\<lambda>sourceLong.
     with_float destLat' (\<lambda>destLat. with_float destLong' (\<lambda>destLong.
     with_float delta' (\<lambda>delta.
       case doc of
         None \<Rightarrow> Inr None
       | Some d \<Rightarrow>
           (case tracks_between_loop (gpx_tracks d) sourceLat sourceLong destLat destLong delta
                   ((0, 0, 0, 0, 0), [], False) of
              Inl f \<Rightarrow> Inl f
            | Inr (st, trackList, tracksFound) \<Rightarrow>
                Inr (if tracksFound = False then None else Some trackList)))))))"

text \<open>Waypoints, routes and tracks for the examples.\<close>

definition point :: "real \<Rightarrow> real \<Rightarrow> Waypoint" where
  "point lat lon =
     \<lparr>wpt_name = '''', wpt_longitude = lon, wpt_latitude = lat, wpt_otherData = []\<rparr>"

definition square_route :: Route where
  "square_route =
     \<lparr>rte_name = ''square'',
      rte_waypoints = [point 0 0, point 1 0, point 1 1, point 0 0], rte_otherData = []\<rparr>"

definition corner_route :: Route where
  "corner_route =
     \<lparr>rte_name = ''corner'',
      rte_waypoints = [point 0 0, point 1 0, point 0 0], rte_otherData = []\<rparr>"

definition square_track :: Track where
  "square_track =
     \<lparr>trk_name = ''square'',
      trk_segments =
        [\<lparr>seg_waypoints = [point 0 0, point 1 0]\<rparr>, \<lparr>seg_waypoints = [point 1 1, point 0 0]\<rparr>],
      trk_otherData = []\<rparr>"

definition corner_track :: Track where
  "corner_track =
     \<lparr>trk_name = ''corner'',
      trk_segments = [\<lparr>seg_waypoints = [point 0 0, point 1 0, point 0 0]\<rparr>],
      trk_otherData = []\<rparr>"

text \<open>
  A route whose first latitude is not a \<^verbatim>\<open>float\<close>: the nearest \<^verbatim>\<open>float\<close> is 45, the
  latitude of its last waypoint.
\<close>

definition nearly_closed_route :: Route where
  "nearly_closed_route =
     \<lparr>rte_name = ''nearly closed'',
      rte_waypoints = [point (4500000001 / 100000000) 0, point 1 0, point 1 1, point 45 0],
      rte_otherData = []\<rparr>"

definition equator_route :: Route where
  "equator_route =
     \<lparr>rte_name = ''equator'', rte_waypoints = [point 0 0, point 0 1], rte_otherData = []\<rparr>"

definition pole_route :: Route where
  "pole_route =
     \<lparr>rte_name = ''pole'', rte_waypoints = [point 90 0, point 0 1], rte_otherData = []\<rparr>"

definition two_routes_doc :: GPXdoc where
  "two_routes_doc =
     \<lparr>gpx_namespace = ''http://www.topografix.com/GPX/1/1'', gpx_version = 11 / 10,
      gpx_creator = ''me'', gpx_waypoints = [],
      gpx_routes = [equator_route, pole_route], gpx_tracks = []\<rparr>"

definition two_segment_track :: Track where
  "two_segment_track =
     \<lparr>trk_name = ''equator'',
      trk_segments = [\<lparr>seg_waypoints = [point 0 0, point 0 1]\<rparr>, \<lparr>seg_waypoints = []\<rparr>],
      trk_otherData = []\<rparr>"

definition one_track_doc :: GPXdoc where
  "one_track_doc =
     \<lparr>gpx_namespace = ''http://www.topografix.com/GPX/1/1'', gpx_version = 11 / 10,
      gpx_creator = ''me'', gpx_waypoints = [], gpx_routes = [],
      gpx_tracks = [two_segment_track]\<rparr>"

section \<open>The JSON projection\<close>

text \<open>
  The conversions \<^verbatim>\<open>%d\<close> and \<^verbatim>\<open>%.pf\<close> of \<^verbatim>\<open>sprintf\<close>, from the C standard: decimal
  digits, a minus sign for a negative number, and for \<^verbatim>\<open>%.pf\<close> the value rounded to
  \<open>p\<close> digits after the point (to even when it lies half way).
\<close>

definition digit_of :: "nat \<Rightarrow> char" where
  "digit_of d = ''0123456789'' ! d"

function show_nat :: "nat \<Rightarrow> string" where
  "show_nat n = (if n < 10 then [digit_of n] else show_nat (n div 10) @ [digit_of (n mod 10)])"
  by pat_completeness auto
termination
  by (relation "measure (\<lambda>n. n)") auto

declare show_nat.simps [simp del]

fun pad_digits :: "nat \<Rightarrow> nat \<Rightarrow> string" where
  "pad_digits 0 n = []"
| "pad_digits (Suc p) n = pad_digits p (n div 10) @ [digit_of (n mod 10)]"

definition printf_f :: "nat \<Rightarrow> real \<Rightarrow> string" where
  "printf_f p x =
     (let m = nat (round_half_even (\<bar>x\<bar> * 10 ^ p))
      in (if x < 0 then ''-'' else '''') @ show_nat (m div 10 ^ p)
           @ (if p = 0 then '''' else ''.'' @ pad_digits p (m mod 10 ^ p)))"

definition printf_d :: "c_int \<Rightarrow> string" where
  "printf_d i =
     (if sint i < 0 then ''-'' @ show_nat (nat (- sint i)) else show_nat (nat (sint i)))"

definition trackToJSON :: "Track option \<Rightarrow> fault + string" where
  \<open>trackToJSON tr =
     (case tr of
        None \<Rightarrow> Inr ''{}''
      | Some t \<Rightarrow>
          (let nameStr = (if trk_name t = '''' then ''None'' else trk_name t)
           in case isLoopTrack computeDistanceBetweenWaypoints tr DEFAULT_DELTA of
                Inl f \<Rightarrow> Inl f
              | Inr isLoop \<Rightarrow>
                  (let loopStr = (if isLoop = True then ''true'' else ''false'')
                   in case getTrackLen tr of
                        Inl f \<Rightarrow> Inl f
                      | Inr trackLen \<Rightarrow>
                          (case round10 trackLen of
                             Inl f \<Rightarrow> Inl f
                           | Inr len \<Rightarrow>
                               Inr (''{"name":"'' @ nameStr @ ''","len":'' @ printf_f 1 len
                                      @ '',"loop":'' @ loopStr @ ''}'')))))\<close>

definition routeToJSON :: "Route option \<Rightarrow> fault + string" where
  \<open>routeToJSON rt =
     (case rt of
        None \<Rightarrow> Inr ''{}''
      | Some r \<Rightarrow>
          (let nameStr = (if rte_name r = '''' then ''None'' else rte_name r)
           in case isLoopRoute computeDistanceBetweenWaypoints rt DEFAULT_DELTA of
                Inl f \<Rightarrow> Inl f
              | Inr isLoop \<Rightarrow>
                  (let loopStr = (if isLoop = True then ''true'' else ''false'')
                   in case getRouteLen rt of
                        Inl f \<Rightarrow> Inl f
                      | Inr routeLen \<Rightarrow>
                          (case round10 routeLen of
                             Inl f \<Rightarrow> Inl f
                           | Inr len \<Rightarrow>
                               Inr (''{"name":"'' @ nameStr @ ''","numPoints":''
                                      @ printf_d (getNumRouteWaypoints rt) @ '',"len":''
                                      @ printf_f 1 len @ '',"loop":'' @ loopStr @ ''}'')))))\<close>

text \<open>
  The loop of \<^verbatim>\<open>routeListToJSON\<close>: the text of the route, and a comma after it while
  \<^verbatim>\<open>getLength(list) > numProcessed\<close>.
\<close>

fun route_list_loop :: "Route list \<Rightarrow> c_int \<Rightarrow> c_int \<Rightarrow> string \<Rightarrow> fault + string" where
  "route_list_loop [] len numProcessed routeListStr = Inr routeListStr"
| "route_list_loop (route # rs) len numProcessed routeListStr =
     (case routeToJSON (Some route) of
        Inl f \<Rightarrow> Inl f
      | Inr tempRteStr \<Rightarrow>
          if 0 < sint len
          then (if sint (numProcessed + 1) < sint len
                then route_list_loop rs len (numProcessed + 1)
                       (routeListStr @ tempRteStr @ '','')
                else route_list_loop rs len (numProcessed + 1) (routeListStr @ tempRteStr))
          else route_list_loop rs len (numProcessed + 1) routeListStr)"

definition routeListToJSON :: "Route list option \<Rightarrow> fault + string" where
  "routeListToJSON list =
     (case list of
        None \<Rightarrow> Inr ''[]''
      | Some l \<Rightarrow>
          if getLength l = 0 then Inr ''[]''
          else (case route_list_loop l (getLength l) 0 ''['' of
                  Inl f \<Rightarrow> Inl f
                | Inr routeListStr \<Rightarrow> Inr (routeListStr @ '']'')))"

text \<open>
  The loop of \<^verbatim>\<open>trackListToJSON\<close> is \<^verbatim>\<open>strcat(trackListStr, trackToJSON(track) + ',')\<close>:
  the character constant is added to the pointer that \<^verbatim>\<open>trackToJSON\<close> returns, so what
  is appended is the text without its first 44 characters. A text shorter than that makes
  the pointer leave the allocated block.
\<close>

fun track_list_loop :: "Track list \<Rightarrow> string \<Rightarrow> fault + string" where
  "track_list_loop [] trackListStr = Inr trackListStr"
| "track_list_loop (track # ts) trackListStr =
     (case trackToJSON (Some track) of
        Inl f \<Rightarrow> Inl f
      | Inr s \<Rightarrow>
          if length s < of_char CHR '',''  then Inl OutOfBoundsRead
          else track_list_loop ts (trackListStr @ drop (of_char CHR '','') s))"

definition trackListToJSON :: "Track list option \<Rightarrow> fault + string" where
  "trackListToJSON list =
     (case list of
        None \<Rightarrow> Inr ''[]''
      | Some l \<Rightarrow>
          if getLength l = 0 then Inr ''[]''
          else (case track_list_loop l ''['' of
                  Inl f \<Rightarrow> Inl f
                | Inr trackListStr \<Rightarrow> Inr (trackListStr @ '']'')))"

text \<open>The reading of the specification: the entries joined by commas, in brackets.\<close>

fun comma_join :: "string list \<Rightarrow> string" where
  "comma_join [] = ''''"
| "comma_join [x] = x"
| "comma_join (x # y # ys) = x @ '','' @ comma_join (y # ys)"

definition json_list :: "string list \<Rightarrow> string" where
  "json_list entries = ''['' @ comma_join entries @ '']''"

definition morning_ride :: Track where
  "morning_ride = \<lparr>trk_name = ''Morning ride'', trk_segments = [], trk_otherData = []\<rparr>"

definition unnamed_track :: Track where
  "unnamed_track = \<lparr>trk_name = '''', trk_segments = [], trk_otherData = []\<rparr>"

definition empty_route :: "string \<Rightarrow> Route" where
  "empty_route n = \<lparr>rte_name = n, rte_waypoints = [], rte_otherData = []\<rparr>"

section \<open>The tree of the XML library\<close>

text \<open>
  Modelled from the spec: the node type of the XML library is declared outside
  \<^verbatim>\<open>GPXParser.c\<close>. Following section 6 of the specification a tree is made of ordered
  nodes with an element name, a namespace URI, an ordered attribute list of name and
  value strings, an ordered child list and text content. The members the code reads are
  \<^verbatim>\<open>type\<close>, \<^verbatim>\<open>name\<close> (\<^verbatim>\<open>text\<close> for a text node), \<^verbatim>\<open>ns->href\<close> (\<open>None\<close> for a \<^verbatim>\<open>NULL\<close>
  namespace), \<^verbatim>\<open>properties\<close>, \<^verbatim>\<open>content\<close> and \<^verbatim>\<open>children\<close>; \<^verbatim>\<open>next\<close> is the rest of
  the list of siblings. The value of an attribute is the content of its text child.
\<close>

datatype xmlElementType =
  XML_ELEMENT_NODE | XML_TEXT_NODE | XML_CDATA_SECTION_NODE | XML_COMMENT_NODE | XML_PI_NODE

datatype xmlNode =
  XmlNode (node_type: xmlElementType) (node_name: string) (node_ns: "string option")
    (node_properties: "(string \<times> string) list") (node_content: string)
    (node_children: "xmlNode list")

definition GPX :: string where "GPX = ''gpx''"
definition TRK :: string where "TRK = ''trk''"
definition TRKSEG :: string where "TRKSEG = ''trkseg''"
definition TRKPT :: string where "TRKPT = ''trkpt''"
definition RTEPT :: string where "RTEPT = ''rtept''"
definition WPT :: string where "WPT = ''wpt''"
definition RTE :: string where "RTE = ''rte''"
definition VERSION :: string where "VERSION = ''version''"
definition CREATOR :: string where "CREATOR = ''creator''"
definition TEXT :: string where "TEXT = ''text''"
definition LAT :: string where "LAT = ''lat''"
definition LON :: string where "LON = ''lon''"
definition NAME :: string where "NAME = ''name''"

text \<open>
  \<^verbatim>\<open>xmlNodeGetContent\<close>: the content of a text, CDATA, comment or processing-instruction
  node; for an element, the text and CDATA contents of its descendants in document order.
\<close>

fun descendant_text :: "xmlNode \<Rightarrow> string" where
  "descendant_text (XmlNode ty nm nsp props cont children) =
     (if ty = XML_TEXT_NODE \<or> ty = XML_CDATA_SECTION_NODE then cont
      else if ty = XML_ELEMENT_NODE then concat (map descendant_text children)
      else '''')"

definition xmlNodeGetContent :: "xmlNode \<Rightarrow> string" where
  "xmlNodeGetContent node =
     (if node_type node = XML_ELEMENT_NODE
      then concat (map descendant_text (node_children node))
      else node_content node)"

section \<open>The constructors\<close>

text \<open>
  \<^verbatim>\<open>strtod\<close> on decimal input, from the C standard: white space, a sign, digits with an
  optional point, an optional exponent; 0 when there is no digit to convert. The result is
  the exact value. The hexadecimal, \<^verbatim>\<open>INF\<close> and \<^verbatim>\<open>NAN\<close> forms are outside the model.
\<close>

definition isspace :: "char \<Rightarrow> bool" where
  "isspace c \<longleftrightarrow>
     c = CHR '' '' \<or> c = CHR 0x09 \<or> c = CHR 0x0A \<or> c = CHR 0x0B \<or> c = CHR 0x0C \<or> c = CHR 0x0D"

definition isdigit :: "char \<Rightarrow> bool" where
  "isdigit c \<longleftrightarrow> c \<in> set ''0123456789''"

definition digit_value :: "char \<Rightarrow> nat" where
  "digit_value c = of_char c - 48"

fun digits_value :: "string \<Rightarrow> nat \<Rightarrow> nat" where
  "digits_value [] acc = acc"
| "digits_value (c # cs) acc = digits_value cs (10 * acc + digit_value c)"

definition strip_sign :: "string \<Rightarrow> string" where
  "strip_sign s =
     (case s of [] \<Rightarrow> [] | c # r \<Rightarrow> if c = CHR ''-'' \<or> c = CHR ''+'' then r else s)"

definition is_negative :: "string \<Rightarrow> bool" where
  "is_negative s = (case s of [] \<Rightarrow> False | c # r \<Rightarrow> c = CHR ''-'')"

definition strtod_exponent :: "string \<Rightarrow> real" where
  "strtod_exponent s =
     (case s of
        [] \<Rightarrow> 1
      | c # r \<Rightarrow>
          if c = CHR ''e'' \<or> c = CHR ''E''
          then (let ds = takeWhile isdigit (strip_sign r)
                in if ds = [] then 1
                   else if is_negative r then 1 / 10 ^ digits_value ds 0
                   else 10 ^ digits_value ds 0)
          else 1)"

definition strtod :: "string \<Rightarrow> real" where
  "strtod nptr =
     (let s = dropWhile isspace nptr;
          s1 = strip_sign s;
          int_digits = takeWhile isdigit s1;
          s2 = dropWhile isdigit s1;
          frac_digits = (case s2 of [] \<Rightarrow> []
                         | c # r \<Rightarrow> if c = CHR ''.'' then takeWhile isdigit r else []);
          s3 = (case s2 of [] \<Rightarrow> []
                | c # r \<Rightarrow> if c = CHR ''.'' then dropWhile isdigit r else s2)
      in if int_digits = [] \<and> frac_digits = [] then 0
         else (if is_negative s then - 1 else 1)
              * (real (digits_value (int_digits @ frac_digits) 0) / 10 ^ length frac_digits)
              * strtod_exponent s3)"


text \<open>
  What a \<^verbatim>\<open>GPXdoc *\<close> points to while a tree is built: nothing (\<^verbatim>\<open>NULL\<close>), the struct that
  \<^verbatim>\<open>createGPXdoc\<close> has allocated and nothing has written yet, or a document.
\<close>

datatype gpx_ptr = Gpx_NULL | Gpx_Allocated | Gpx_Doc GPXdoc

definition buildGPXdoc ::
  "gpx_ptr \<Rightarrow> string option \<Rightarrow> string option \<Rightarrow> string option \<Rightarrow> gpx_ptr" where
  "buildGPXdoc gpx schemaLocation version creator =
     (case (schemaLocation, version, creator) of
        (Some schemaLocation', Some version', Some creator') \<Rightarrow>
          if gpx = Gpx_NULL then Gpx_NULL
          else Gpx_Doc
                 \<lparr>gpx_namespace = schemaLocation',
                  gpx_version = (if version' = '''' then - 1 else strtod version'),
                  gpx_creator = creator',
                  gpx_waypoints = [], gpx_routes = [], gpx_tracks = []\<rparr>
      | _ \<Rightarrow> Gpx_NULL)"

definition buildTrack :: "string option \<Rightarrow> Track option" where
  "buildTrack name =
     (case name of
        None \<Rightarrow> None
      | Some n \<Rightarrow> Some \<lparr>trk_name = n, trk_segments = [], trk_otherData = []\<rparr>)"

definition buildRoute :: "string option \<Rightarrow> Route option" where
  "buildRoute name =
     (case name of
        None \<Rightarrow> None
      | Some n \<Rightarrow> Some \<lparr>rte_name = n, rte_waypoints = [], rte_otherData = []\<rparr>)"

text \<open>
  \<^verbatim>\<open>buildWaypoint\<close>: both coordinates start as the sentinel. The longitude is converted
  when the longitude text is not empty, and so is the latitude: its test reads the
  longitude text as well.
\<close>

definition buildWaypoint ::
  "string option \<Rightarrow> string option \<Rightarrow> string option \<Rightarrow> Waypoint option" where
  "buildWaypoint name longitude latitude =
     (case (name, longitude, latitude) of
        (Some name', Some longitude', Some latitude') \<Rightarrow>
          Some \<lparr>wpt_name = name',
                wpt_longitude =
                  (if longitude' \<noteq> '''' then strtod longitude' else SENTINEL_LAT_LON),
                wpt_latitude =
                  (if longitude' \<noteq> '''' then strtod latitude' else SENTINEL_LAT_LON),
                wpt_otherData = []\<rparr>
      | _ \<Rightarrow> None)"

definition buildGPXData :: "string option \<Rightarrow> string option \<Rightarrow> GPXData option" where
  "buildGPXData name value =
     (case (name, value) of
        (Some name', Some value') \<Rightarrow>
          if value' = '''' then None else Some \<lparr>gd_name = name', gd_value = value'\<rparr>
      | _ \<Rightarrow> None)"

definition buildTrackSegment :: TrackSegment where
  "buildTrackSegment = \<lparr>seg_waypoints = []\<rparr>"

section \<open>Building the document from a tree\<close>

text \<open>
  The local variables of one call of \<^verbatim>\<open>buildObjects\<close> that live across the iterations
  of its loop over the siblings: the texts read from the attributes and the name buffers.
  Each starts as the empty string.
\<close>

record locals =
  gpxSchema :: string
  gpxVersion :: string
  gpxCreator :: string
  trkName :: string
  wptName :: string
  rteName :: string
  wptLat :: string
  wptLon :: string

definition initial_locals :: locals where
  "initial_locals =
     \<lparr>gpxSchema = '''', gpxVersion = '''', gpxCreator = '''', trkName = '''', wptName = '''',
      rteName = '''', wptLat = '''', wptLon = ''''\<rparr>"

text \<open>
  What the body of the loop does with one node: it hits undefined behaviour, it sets
  \<^verbatim>\<open>parseFail\<close> and returns \<^verbatim>\<open>NULL\<close>, or it goes on.
\<close>

datatype 'a step = Fault fault | ParseFailed | Continue 'a

definition deref :: "gpx_ptr \<Rightarrow> fault + GPXdoc" where
  "deref gpx =
     (case gpx of
        Gpx_NULL \<Rightarrow> Inl NullDereference
      | Gpx_Allocated \<Rightarrow> Inl UninitialisedRead
      | Gpx_Doc d \<Rightarrow> Inr d)"

text \<open>A change made through the pointer that \<^verbatim>\<open>getFromBack\<close> returns.\<close>

definition update_back :: "('a \<Rightarrow> 'a) \<Rightarrow> 'a list \<Rightarrow> 'a list" where
  "update_back f xs = (case rev xs of [] \<Rightarrow> [] | x # r \<Rightarrow> rev r @ [f x])"

text \<open>
  The scan for a name. It starts at the second child (\<^verbatim>\<open>cur_node->children->next\<close>) and
  reads the content of that node once, before the loop; every child called \<^verbatim>\<open>name\<close>
  that the loop meets copies this content into the buffer. The loop test
  \<^verbatim>\<open>child != child->last\<close> compares a node with its own last child and never ends the
  loop.
\<close>

fun name_scan_loop :: "xmlNode list \<Rightarrow> string \<Rightarrow> string \<Rightarrow> string" where
  "name_scan_loop [] content buf = buf"
| "name_scan_loop (child # cs) content buf =
     name_scan_loop cs content (if node_name child = NAME then content else buf)"

definition name_scan :: "xmlNode list \<Rightarrow> string \<Rightarrow> string" where
  "name_scan children buf =
     (case children of
        [] \<Rightarrow> buf
      | first # rest \<Rightarrow>
          (case rest of
             [] \<Rightarrow> buf
           | child # _ \<Rightarrow> name_scan_loop rest (xmlNodeGetContent child) buf))"

text \<open>
  The loop that turns children into \<^verbatim>\<open>GPXData\<close>, again from the second child on: a child
  whose name is not among the skipped ones becomes an entry, and an entry that cannot be
  built (empty content) ends the parse.
\<close>

fun other_data_loop :: "xmlNode list \<Rightarrow> string list \<Rightarrow> GPXData list \<Rightarrow> GPXData list option" where
  "other_data_loop [] skipped otherData = Some otherData"
| "other_data_loop (child # cs) skipped otherData =
     (if node_name child \<notin> set skipped
      then (case buildGPXData (Some (node_name child)) (Some (xmlNodeGetContent child)) of
              None \<Rightarrow> None
            | Some gpxData \<Rightarrow> other_data_loop cs skipped (insertBack otherData gpxData))
      else other_data_loop cs skipped otherData)"

definition other_data :: "xmlNode list \<Rightarrow> string list \<Rightarrow> GPXData list \<Rightarrow> GPXData list option" where
  "other_data children skipped otherData =
     (case children of
        [] \<Rightarrow> Some otherData
      | first # rest \<Rightarrow> other_data_loop rest skipped otherData)"

text \<open>The loop over the attributes, for the root element and for a point element.\<close>

fun gpx_attr_loop :: "(string \<times> string) list \<Rightarrow> string option \<Rightarrow> locals \<Rightarrow> fault + locals" where
  "gpx_attr_loop [] ns loc = Inr loc"
| "gpx_attr_loop ((attrName, cont) # attrs) ns loc =
     (case ns of
        None \<Rightarrow> Inl NullDereference
      | Some href \<Rightarrow>
          gpx_attr_loop attrs ns
            (if attrName = VERSION then loc\<lparr>gpxSchema := href, gpxVersion := cont\<rparr>
             else if attrName = CREATOR then loc\<lparr>gpxSchema := href, gpxCreator := cont\<rparr>
             else loc\<lparr>gpxSchema := href\<rparr>))"

fun wpt_attr_loop :: "(string \<times> string) list \<Rightarrow> xmlNode list \<Rightarrow> locals \<Rightarrow> locals" where
  "wpt_attr_loop [] children loc = loc"
| "wpt_attr_loop ((attrName, cont) # attrs) children loc =
     wpt_attr_loop attrs children
       (if attrName = LAT
        then loc\<lparr>wptName := name_scan children (wptName loc), wptLat := cont\<rparr>
        else if attrName = LON
        then loc\<lparr>wptName := name_scan children (wptName loc), wptLon := cont\<rparr>
        else loc\<lparr>wptName := name_scan children (wptName loc)\<rparr>)"

text \<open>
  The first part of the loop body: the name scans of a route and of a track, and the
  segment that a \<^verbatim>\<open>trkseg\<close> element adds to the last track (to a new unnamed track when
  there is none). The route scan reads \<^verbatim>\<open>cur_node->children->next\<close> before it tests
  \<^verbatim>\<open>cur_node->children\<close>.
\<close>

definition scan_element :: "xmlNode \<Rightarrow> locals \<Rightarrow> gpx_ptr \<Rightarrow> (locals \<times> gpx_ptr) step" where
  "scan_element cur_node loc gpx =
     (if node_name cur_node = RTE \<and> node_children cur_node = [] then Fault NullDereference
      else
        (let loc1 = (if node_name cur_node = RTE
                     then loc\<lparr>rteName := name_scan (node_children cur_node) (rteName loc)\<rparr>
                     else loc)
         in if node_name cur_node = TRK
            then Continue
                   (loc1\<lparr>trkName := name_scan (node_children cur_node) (trkName loc1)\<rparr>, gpx)
            else if node_name cur_node = TRKSEG
            then (case deref gpx of
                    Inl f \<Rightarrow> Fault f
                  | Inr d \<Rightarrow>
                      (case getFromBack (gpx_tracks d) of
                         None \<Rightarrow>
                           (case buildTrack (Some '''') of
                              None \<Rightarrow> ParseFailed
                            | Some track \<Rightarrow>
                                Continue
                                  (loc1,
                                   Gpx_Doc
                                     (d\<lparr>gpx_tracks :=
                                          insertBack (gpx_tracks d)
                                            (track\<lparr>trk_segments :=
                                                    insertBack (trk_segments track)
                                                      buildTrackSegment\<rparr>)\<rparr>)))
                       | Some track \<Rightarrow>
                           Continue
                             (loc1,
                              Gpx_Doc
                                (d\<lparr>gpx_tracks :=
                                     update_back
                                       (\<lambda>t. t\<lparr>trk_segments :=
                                                insertBack (trk_segments t) buildTrackSegment\<rparr>)
                                       (gpx_tracks d)\<rparr>))))
            else Continue (loc1, gpx)))"

definition scan_attributes :: "xmlNode \<Rightarrow> locals \<Rightarrow> fault + locals" where
  "scan_attributes cur_node loc =
     (if node_name cur_node = GPX
      then gpx_attr_loop (node_properties cur_node) (node_ns cur_node) loc
      else if node_name cur_node = TRKPT \<or> node_name cur_node = WPT
              \<or> node_name cur_node = RTEPT
      then Inr (wpt_attr_loop (node_properties cur_node) (node_children cur_node) loc)
      else Inr loc)"

text \<open>
  Where a new waypoint goes: a \<^verbatim>\<open>wpt\<close> to the document, a \<^verbatim>\<open>trkpt\<close> to the last segment of
  the last track, a \<^verbatim>\<open>rtept\<close> to the last route; a track, segment or route that is not
  there is made first.
\<close>

definition add_trackpoint :: "Waypoint \<Rightarrow> Track \<Rightarrow> Track" where
  "add_trackpoint waypoint track =
     (case getFromBack (trk_segments track) of
        None \<Rightarrow>
          track\<lparr>trk_segments :=
                  insertBack (trk_segments track)
                    (buildTrackSegment
                       \<lparr>seg_waypoints := insertBack (seg_waypoints buildTrackSegment) waypoint\<rparr>)\<rparr>
      | Some trackSegment \<Rightarrow>
          track\<lparr>trk_segments :=
                  update_back (\<lambda>s. s\<lparr>seg_waypoints := insertBack (seg_waypoints s) waypoint\<rparr>)
                    (trk_segments track)\<rparr>)"

definition place_waypoint :: "string \<Rightarrow> Waypoint \<Rightarrow> gpx_ptr \<Rightarrow> gpx_ptr step" where
  "place_waypoint nm waypoint gpx =
     (if nm = WPT
      then (case deref gpx of
              Inl f \<Rightarrow> Fault f
            | Inr d \<Rightarrow>
                Continue (Gpx_Doc (d\<lparr>gpx_waypoints := insertBack (gpx_waypoints d) waypoint\<rparr>)))
      else if nm = TRKPT
      then (case deref gpx of
              Inl f \<Rightarrow> Fault f
            | Inr d \<Rightarrow>
                (case getFromBack (gpx_tracks d) of
                   None \<Rightarrow>
                     (case buildTrack (Some '''') of
                        None \<Rightarrow> ParseFailed
                      | Some track \<Rightarrow>
                          Continue
                            (Gpx_Doc
                               (d\<lparr>gpx_tracks :=
                                    insertBack (gpx_tracks d) (add_trackpoint waypoint track)\<rparr>)))
                 | Some track \<Rightarrow>
                     Continue
                       (Gpx_Doc
                          (d\<lparr>gpx_tracks :=
                               update_back (add_trackpoint waypoint) (gpx_tracks d)\<rparr>))))
      else if nm = RTEPT
      then (case deref gpx of
              Inl f \<Rightarrow> Fault f
            | Inr d \<Rightarrow>
                (case getFromBack (gpx_routes d) of
                   None \<Rightarrow>
                     (case buildRoute (Some '''') of
                        None \<Rightarrow> ParseFailed
                      | Some route \<Rightarrow>
                          Continue
                            (Gpx_Doc
                               (d\<lparr>gpx_routes :=
                                    insertBack (gpx_routes d)
                                      (route\<lparr>rte_waypoints :=
                                               insertBack (rte_waypoints route) waypoint\<rparr>)\<rparr>)))
                 | Some route \<Rightarrow>
                     Continue
                       (Gpx_Doc
                          (d\<lparr>gpx_routes :=
                               update_back
                                 (\<lambda>r. r\<lparr>rte_waypoints :=
                                          insertBack (rte_waypoints r) waypoint\<rparr>)
                                 (gpx_routes d)\<rparr>))))
      else Continue gpx)"

text \<open>
  The last part of the loop body: the struct for the element is built, from the texts the
  scans have left in the local variables, and inserted.
\<close>

definition build_element :: "xmlNode \<Rightarrow> locals \<Rightarrow> gpx_ptr \<Rightarrow> (locals \<times> gpx_ptr) step" where
  "build_element cur_node loc gpx =
     (if node_name cur_node = GPX
      then (case buildGPXdoc gpx (Some (gpxSchema loc)) (Some (gpxVersion loc))
                   (Some (gpxCreator loc)) of
              Gpx_NULL \<Rightarrow> ParseFailed
            | Gpx_Allocated \<Rightarrow> Continue (loc, Gpx_Allocated)
            | Gpx_Doc d \<Rightarrow> Continue (loc, Gpx_Doc d))
      else if node_name cur_node = TRKPT \<or> node_name cur_node = WPT
              \<or> node_name cur_node = RTEPT
      then (case buildWaypoint (Some (wptName loc)) (Some (wptLon loc)) (Some (wptLat loc)) of
              None \<Rightarrow> ParseFailed
            | Some waypoint \<Rightarrow>
                (case other_data (node_children cur_node) [TEXT, NAME]
                        (wpt_otherData waypoint) of
                   None \<Rightarrow> ParseFailed
                 | Some od \<Rightarrow>
                     (case place_waypoint (node_name cur_node)
                             (waypoint\<lparr>wpt_otherData := od\<rparr>) gpx of
                        Fault f \<Rightarrow> Fault f
                      | ParseFailed \<Rightarrow> ParseFailed
                      | Continue gpx' \<Rightarrow> Continue (loc\<lparr>wptName := ''''\<rparr>, gpx'))))
      else if node_name cur_node = TRK
      then (case buildTrack (Some (trkName loc)) of
              None \<Rightarrow> ParseFailed
            | Some track \<Rightarrow>
                (case other_data (node_children cur_node) [TEXT, TRKSEG, NAME]
                        (trk_otherData track) of
                   None \<Rightarrow> ParseFailed
                 | Some od \<Rightarrow>
                     (case deref gpx of
                        Inl f \<Rightarrow> Fault f
                      | Inr d \<Rightarrow>
                          Continue
                            (loc\<lparr>trkName := ''''\<rparr>,
                             Gpx_Doc
                               (d\<lparr>gpx_tracks :=
                                    insertBack (gpx_tracks d)
                                      (track\<lparr>trk_otherData := od\<rparr>)\<rparr>)))))
      else if node_name cur_node = RTE
      then (case buildRoute (Some (rteName loc)) of
              None \<Rightarrow> ParseFailed
            | Some route \<Rightarrow>
                (case other_data (node_children cur_node) [TEXT, RTEPT, NAME]
                        (rte_otherData route) of
                   None \<Rightarrow> ParseFailed
                 | Some od \<Rightarrow>
                     (case deref gpx of
                        Inl f \<Rightarrow> Fault f
                      | Inr d \<Rightarrow>
                          Continue
                            (loc\<lparr>rteName := ''''\<rparr>,
                             Gpx_Doc
                               (d\<lparr>gpx_routes :=
                                    insertBack (gpx_routes d)
                                      (route\<lparr>rte_otherData := od\<rparr>)\<rparr>)))))
      else Continue (loc, gpx))"

definition process_element :: "xmlNode \<Rightarrow> locals \<Rightarrow> gpx_ptr \<Rightarrow> (locals \<times> gpx_ptr) step" where
  "process_element cur_node loc gpx =
     (case scan_element cur_node loc gpx of
        Fault f \<Rightarrow> Fault f
      | ParseFailed \<Rightarrow> ParseFailed
      | Continue (loc1, gpx1) \<Rightarrow>
          (case scan_attributes cur_node loc1 of
             Inl f \<Rightarrow> Fault f
           | Inr loc2 \<Rightarrow> build_element cur_node loc2 gpx1))"

text \<open>
  \<^verbatim>\<open>buildObjects\<close>: the loop over a list of siblings, with the local variables, the
  document pointer and the global flag \<^verbatim>\<open>parseFail\<close>. A node that is not an element is
  only descended into. After the body the flag is tested, then the children are built by
  a recursive call, which has local variables of its own and whose result becomes the
  document pointer for the rest of the siblings. The result is the pointer returned and
  the flag.
\<close>

function buildObjects ::
  "xmlNode list \<Rightarrow> locals \<Rightarrow> gpx_ptr \<Rightarrow> bool \<Rightarrow> fault + gpx_ptr \<times> bool" where
  "buildObjects [] loc gpx parseFail = Inr (gpx, parseFail)"
| "buildObjects (cur_node # siblings) loc gpx parseFail =
     (case (if node_type cur_node = XML_ELEMENT_NODE then process_element cur_node loc gpx
            else Continue (loc, gpx)) of
        Fault f \<Rightarrow> Inl f
      | ParseFailed \<Rightarrow> Inr (Gpx_NULL, True)
      | Continue (loc', gpx') \<Rightarrow>
          if parseFail = True then Inr (Gpx_NULL, parseFail)
          else (case buildObjects (node_children cur_node) initial_locals gpx' parseFail of
                  Inl f \<Rightarrow> Inl f
                | Inr (gpx'', parseFail') \<Rightarrow> buildObjects siblings loc' gpx'' parseFail'))"
  by pat_completeness auto
termination
proof (relation "measure (\<lambda>(nodes, loc, gpx, parseFail). size_list size nodes)", goal_cases)
  case (2 cur_node)
  show ?case by (cases cur_node) simp
qed simp_all

text \<open>
  \<^verbatim>\<open>createGPXdoc\<close> once the file is read: the struct is allocated, \<^verbatim>\<open>buildObjects\<close> runs on
  the root element and the nodes after it, and the result is \<^verbatim>\<open>NULL\<close> when \<^verbatim>\<open>parseFail\<close>
  is set.
\<close>

definition createGPXdoc :: "xmlNode list \<Rightarrow> bool \<Rightarrow> fault + gpx_ptr \<times> bool" where
  "createGPXdoc root_element parseFail =
     (case buildObjects root_element initial_locals Gpx_Allocated parseFail of
        Inl f \<Rightarrow> Inl f
      | Inr (gpx, parseFail') \<Rightarrow>
          if parseFail' = True then Inr (Gpx_NULL, parseFail') else Inr (gpx, parseFail'))"

section \<open>Writing the document as a tree\<close>

text \<open>
  Modelled from the spec: \<^verbatim>\<open>xmlNewNode\<close>, \<^verbatim>\<open>xmlNewChild\<close>, \<^verbatim>\<open>xmlNewProp\<close> and the
  namespace functions belong to the XML library. Following section 4.4 of the
  specification the serializer creates the root element with its attributes and
  namespace and appends one child element per entity. A new child is an element at the
  end of the children of its parent, in the namespace of the parent, with a text node for
  its content when it is given one; a new property goes to the end of the attribute list.
\<close>

definition text_node :: "string \<Rightarrow> xmlNode" where
  "text_node content = XmlNode XML_TEXT_NODE TEXT None [] content []"

definition xmlNewChild :: "string option \<Rightarrow> string \<Rightarrow> string option \<Rightarrow> xmlNode" where
  "xmlNewChild ns name content =
     XmlNode XML_ELEMENT_NODE name ns [] ''''
       (case content of None \<Rightarrow> [] | Some c \<Rightarrow> if c = '''' then [] else [text_node c])"

definition ConvertGPXDataToXml :: "string option \<Rightarrow> GPXData \<Rightarrow> xmlNode" where
  "ConvertGPXDataToXml ns gpxData =
     xmlNewChild ns (gd_name gpxData) (Some (gd_value gpxData))"

definition ConvertWaypointToXml :: "string option \<Rightarrow> Waypoint \<Rightarrow> string \<Rightarrow> xmlNode" where
  "ConvertWaypointToXml ns waypoint wptType =
     XmlNode XML_ELEMENT_NODE wptType ns
       [(LAT, printf_f 6 (wpt_latitude waypoint)), (LON, printf_f 6 (wpt_longitude waypoint))]
       ''''
       ((if wpt_name waypoint \<noteq> '''' then [xmlNewChild ns NAME (Some (wpt_name waypoint))]
         else [])
        @ map (ConvertGPXDataToXml ns) (wpt_otherData waypoint))"

definition ConvertTrackSegmentToXml :: "string option \<Rightarrow> TrackSegment \<Rightarrow> xmlNode" where
  "ConvertTrackSegmentToXml ns trackSegment =
     XmlNode XML_ELEMENT_NODE TRKSEG ns [] ''''
       (map (\<lambda>waypoint. ConvertWaypointToXml ns waypoint TRKPT) (seg_waypoints trackSegment))"

definition ConvertTrackToXml :: "string option \<Rightarrow> Track \<Rightarrow> xmlNode" where
  "ConvertTrackToXml ns track =
     XmlNode XML_ELEMENT_NODE TRK ns [] ''''
       ((if trk_name track \<noteq> '''' then [xmlNewChild ns NAME (Some (trk_name track))] else [])
        @ map (ConvertGPXDataToXml ns) (trk_otherData track)
        @ map (ConvertTrackSegmentToXml ns) (trk_segments track))"

definition ConvertRouteToXml :: "string option \<Rightarrow> Route \<Rightarrow> xmlNode" where
  "ConvertRouteToXml ns route =
     XmlNode XML_ELEMENT_NODE RTE ns [] ''''
       ((if rte_name route \<noteq> '''' then [xmlNewChild ns NAME (Some (rte_name route))] else [])
        @ map (ConvertGPXDataToXml ns) (rte_otherData route)
        @ map (\<lambda>waypoint. ConvertWaypointToXml ns waypoint RTEPT) (rte_waypoints route))"

text \<open>
  \<^verbatim>\<open>ConvertGPXDocToXmlDoc\<close>: the root element that \<^verbatim>\<open>ConvertGPXdocToXml\<close> makes, then the
  waypoints, the routes and the tracks of the document as its children.
\<close>

definition ConvertGPXDocToXmlDoc :: "GPXdoc option \<Rightarrow> xmlNode option" where
  "ConvertGPXDocToXmlDoc gpx =
     (case gpx of
        None \<Rightarrow> None
      | Some d \<Rightarrow>
          Some (XmlNode XML_ELEMENT_NODE GPX (Some (gpx_namespace d))
                  [(VERSION, printf_f 1 (gpx_version d)), (CREATOR, gpx_creator d)] ''''
                  (map (\<lambda>waypoint. ConvertWaypointToXml (Some (gpx_namespace d)) waypoint WPT)
                     (gpx_waypoints d)
                   @ map (ConvertRouteToXml (Some (gpx_namespace d))) (gpx_routes d)
                   @ map (ConvertTrackToXml (Some (gpx_namespace d))) (gpx_tracks d))))"

text \<open>Trees and documents for the examples.\<close>

definition topografix :: string where
  "topografix = ''http://www.topografix.com/GPX/1/1''"

definition named_waypoint_doc :: GPXdoc where
  "named_waypoint_doc =
     \<lparr>gpx_namespace = topografix, gpx_version = 11 / 10, gpx_creator = ''me'',
      gpx_waypoints =
        [\<lparr>wpt_name = ''A'', wpt_longitude = 2, wpt_latitude = 1, wpt_otherData = []\<rparr>],
      gpx_routes = [], gpx_tracks = []\<rparr>"

definition named_waypoint_tree :: xmlNode where
  "named_waypoint_tree =
     XmlNode XML_ELEMENT_NODE ''gpx'' (Some topografix)
       [(''version'', ''1.1''), (''creator'', ''me'')] ''''
       [XmlNode XML_ELEMENT_NODE ''wpt'' (Some topografix)
          [(''lat'', ''1.000000''), (''lon'', ''2.000000'')] ''''
          [XmlNode XML_ELEMENT_NODE ''name'' (Some topografix) [] ''''
             [XmlNode XML_TEXT_NODE ''text'' None [] ''A'' []]]]"

text \<open>
  The same document as the parser of the XML library gives it for an indented file: the
  white space between the elements is a text node.
\<close>

definition white_space :: xmlNode where
  "white_space = XmlNode XML_TEXT_NODE ''text'' None [] [CHR 0x0A, CHR '' ''] []"

definition indented_waypoint_tree :: xmlNode where
  "indented_waypoint_tree =
     XmlNode XML_ELEMENT_NODE ''gpx'' (Some topografix)
       [(''version'', ''1.1''), (''creator'', ''me'')] ''''
       [white_space,
        XmlNode XML_ELEMENT_NODE ''wpt'' (Some topografix)
          [(''lat'', ''1.000000''), (''lon'', ''2.000000'')] ''''
          [white_space,
           XmlNode XML_ELEMENT_NODE ''name'' (Some topografix) [] ''''
             [XmlNode XML_TEXT_NODE ''text'' None [] ''A'' []],
           white_space],
        white_space]"

definition unnamed_waypoint_tree :: xmlNode where
  "unnamed_waypoint_tree =
     XmlNode XML_ELEMENT_NODE ''gpx'' (Some topografix)
       [(''version'', ''1.1''), (''creator'', ''me'')] ''''
       [XmlNode XML_ELEMENT_NODE ''wpt'' (Some topografix)
          [(''lat'', ''1.000000''), (''lon'', ''2.000000'')] '''' []]"

definition no_creator_tree :: xmlNode where
  "no_creator_tree =
     XmlNode XML_ELEMENT_NODE ''gpx'' (Some topografix) [(''version'', ''1.1'')] '''' []"

definition no_creator_doc :: GPXdoc where
  "no_creator_doc =
     \<lparr>gpx_namespace = topografix, gpx_version = 11 / 10, gpx_creator = '''',
      gpx_waypoints = [], gpx_routes = [], gpx_tracks = []\<rparr>"

text \<open>The number of \<^verbatim>\<open>gpx\<close> elements in a tree.\<close>

fun count_gpx_elements :: "xmlNode \<Rightarrow> nat" where
  "count_gpx_elements (XmlNode ty nm nsp props cont children) =
     (if ty = XML_ELEMENT_NODE \<and> nm = GPX then 1 else 0)
       + sum_list (map count_gpx_elements children)"





section \<open>Properties\<close>

subsection \<open>Counting\<close>

lemma count_elements_eq: "count_elements xs c = c + word_of_nat (length xs)"
  by (induction xs arbitrary: c) simp_all

lemma count_waypoint_data_eq:
  "count_waypoint_data ws c =
     c + word_of_nat (sum_list (map (\<lambda>w. length (wpt_otherData w)) ws)
                      + length (filter (\<lambda>w. wpt_name w \<noteq> '''') ws))"
  by (induction ws arbitrary: c) (simp_all add: count_elements_eq)

lemma count_segment_data_eq:
  "count_segment_data ss c =
     c + word_of_nat
           (sum_list (map (\<lambda>w. length (wpt_otherData w)) (concat (map seg_waypoints ss)))
            + length (filter (\<lambda>w. wpt_name w \<noteq> '''') (concat (map seg_waypoints ss))))"
  by (induction ss arbitrary: c) (simp_all add: count_waypoint_data_eq)

lemma count_track_data_eq:
  "count_track_data ts c =
     c + word_of_nat
           (sum_list (map (\<lambda>w. length (wpt_otherData w)) (concat (map track_waypoints ts)))
            + length (filter (\<lambda>w. wpt_name w \<noteq> '''') (concat (map track_waypoints ts)))
            + sum_list (map (\<lambda>t. length (trk_otherData t)) ts)
            + length (filter (\<lambda>t. trk_name t \<noteq> '''') ts))"
  by (induction ts arbitrary: c)
     (simp_all add: count_segment_data_eq count_elements_eq track_waypoints_def)

lemma count_route_data_eq:
  "count_route_data rs c =
     c + word_of_nat
           (sum_list (map (\<lambda>w. length (wpt_otherData w)) (concat (map rte_waypoints rs)))
            + length (filter (\<lambda>w. wpt_name w \<noteq> '''') (concat (map rte_waypoints rs)))
            + sum_list (map (\<lambda>r. length (rte_otherData r)) rs)
            + length (filter (\<lambda>r. rte_name r \<noteq> '''') rs))"
  by (induction rs arbitrary: c)
     (simp_all add: count_waypoint_data_eq count_elements_eq)

lemma getNumGPXData_word:
  "getNumGPXData (Some d) = word_of_nat (num_extension_fields d + num_named_entities d)"
  by (simp add: getNumGPXData_def count_route_data_eq count_track_data_eq
        count_waypoint_data_eq num_extension_fields_def num_named_entities_def
        all_waypoints_def)

lemma sint_word_of_nat_32:
  "n < 2 ^ 31 \<Longrightarrow> sint (word_of_nat n :: 32 word) = int n"
  by (simp add: signed_of_nat signed_take_bit_int_eq_self)

text \<open>
  C9. Each of \<^verbatim>\<open>getNumWaypoints\<close>, \<^verbatim>\<open>getNumRoutes\<close>, \<^verbatim>\<open>getNumTracks\<close> and
  \<^verbatim>\<open>getNumSegments\<close> returns 0 when the document pointer is \<^verbatim>\<open>NULL\<close>.
\<close>

theorem count_getters_null:
  "getNumWaypoints None = 0 \<and> getNumRoutes None = 0
     \<and> getNumTracks None = 0 \<and> getNumSegments None = 0"
  by (simp add: getNumWaypoints_def getNumRoutes_def getNumTracks_def getNumSegments_def)

text \<open>
  C10. \<^verbatim>\<open>getNumGPXData\<close> returns the number of extension fields attached to the
  waypoints, routes and tracks of the document plus one for every waypoint, route and
  track with a non-empty name: as a 32-bit \<^verbatim>\<open>int\<close> in general, and as that very number
  while it is below \<open>2^31\<close>.
\<close>

theorem getNumGPXData_counts:
  "getNumGPXData (Some d) = word_of_nat (num_extension_fields d + num_named_entities d)
   \<and> (num_extension_fields d + num_named_entities d < 2 ^ 31 \<longrightarrow>
        sint (getNumGPXData (Some d))
          = int (num_extension_fields d) + int (num_named_entities d))"
  using sint_word_of_nat_32 [of "num_extension_fields d + num_named_entities d"]
  by (simp only: getNumGPXData_word of_nat_add) simp

theorem getNumGPXData_counts_witness:
  "num_extension_fields example_doc + num_named_entities example_doc < 2 ^ 31
   \<and> num_extension_fields example_doc = 1 \<and> num_named_entities example_doc = 3
   \<and> sint (getNumGPXData (Some example_doc)) = 4"
  using getNumGPXData_counts [of example_doc]
  by (simp add: num_extension_fields_def num_named_entities_def all_waypoints_def
        track_waypoints_def example_doc_def)

subsection \<open>Validation leaves the document as it is\<close>

lemma validate_each_frame:
  "(\<And>x. snd (v x) = x) \<Longrightarrow> snd (validate_each v xs) = xs"
proof (induction xs)
  case Nil
  then show ?case by simp
next
  case (Cons x xs)
  then show ?case
    by (auto split: prod.splits) (metis snd_conv)+
qed

lemma validateGPXData_frame: "snd (validateGPXData d) = d"
  by (simp add: validateGPXData_def)

lemma validateWaypoint_frame: "snd (validateWaypoint w) = w"
  using validate_each_frame [of validateGPXData "wpt_otherData w", OF validateGPXData_frame]
  by (auto simp: validateWaypoint_def split: prod.splits)

lemma validateRoute_frame: "snd (validateRoute r) = r"
  using validate_each_frame [of validateGPXData "rte_otherData r", OF validateGPXData_frame]
    validate_each_frame [of validateWaypoint "rte_waypoints r", OF validateWaypoint_frame]
  by (auto simp: validateRoute_def split: prod.splits)

lemma validateTrackSegment_frame: "snd (validateTrackSegment s) = s"
  using validate_each_frame [of validateWaypoint "seg_waypoints s", OF validateWaypoint_frame]
  by (auto simp: validateTrackSegment_def split: prod.splits)

lemma validateTrack_frame: "snd (validateTrack t) = t"
  using validate_each_frame [of validateGPXData "trk_otherData t", OF validateGPXData_frame]
    validate_each_frame [of validateTrackSegment "trk_segments t", OF validateTrackSegment_frame]
  by (auto simp: validateTrack_def split: prod.splits)

lemma IsValidGPXdoc_frame: "snd (IsValidGPXdoc gpx) = gpx"
  using validate_each_frame [of validateWaypoint "gpx_waypoints gpx", OF validateWaypoint_frame]
    validate_each_frame [of validateRoute "gpx_routes gpx", OF validateRoute_frame]
    validate_each_frame [of validateTrack "gpx_tracks gpx", OF validateTrack_frame]
  by (auto simp: IsValidGPXdoc_def split: prod.splits)

text \<open>
  C8. \<^verbatim>\<open>IsValidGPXdoc\<close> leaves the document it is given unchanged, and a second call on
  the document gives the answer of the first.
\<close>

theorem IsValidGPXdoc_no_mutation:
  "snd (IsValidGPXdoc gpx) = gpx
   \<and> fst (IsValidGPXdoc (snd (IsValidGPXdoc gpx))) = fst (IsValidGPXdoc gpx)"
  by (simp add: IsValidGPXdoc_frame)

subsection \<open>Conversion to single precision\<close>

lemma round_half_even_of_int [simp]: "round_half_even (of_int n) = n"
  by (simp add: round_half_even_def)

lemma round_half_even_floor: "\<lfloor>x\<rfloor> \<le> round_half_even x \<and> round_half_even x \<le> \<lfloor>x\<rfloor> + 1"
  by (simp add: round_half_even_def Let_def)

lemma round_half_even_bounds:
  "real_of_int (round_half_even x) \<le> x + 1 / 2 \<and> x - 1 / 2 \<le> real_of_int (round_half_even x)"
proof -
  have a: "real_of_int \<lfloor>x\<rfloor> \<le> x" by (rule of_int_floor_le)
  have b: "x < real_of_int \<lfloor>x\<rfloor> + 1" by (rule real_of_int_floor_add_one_gt)
  consider "x - real_of_int \<lfloor>x\<rfloor> < 1 / 2" | "1 / 2 < x - real_of_int \<lfloor>x\<rfloor>"
    | "x - real_of_int \<lfloor>x\<rfloor> = 1 / 2" by linarith
  then show ?thesis
  proof cases
    case 1
    then have "round_half_even x = \<lfloor>x\<rfloor>" by (simp add: round_half_even_def)
    then show ?thesis using a b 1 by linarith
  next
    case 2
    then have "round_half_even x = \<lfloor>x\<rfloor> + 1" by (simp add: round_half_even_def)
    then show ?thesis using a b 2 by (simp only: of_int_add of_int_1) linarith
  next
    case 3
    have "round_half_even x = \<lfloor>x\<rfloor> \<or> round_half_even x = \<lfloor>x\<rfloor> + 1"
      using round_half_even_floor [of x] by linarith
    then show ?thesis using a b 3 by (elim disjE; simp only: of_int_add of_int_1) linarith+
  qed
qed

lemma round_half_even_mono: "x \<le> y \<Longrightarrow> round_half_even x \<le> round_half_even y"
proof -
  assume xy: "x \<le> y"
  then have f: "\<lfloor>x\<rfloor> \<le> \<lfloor>y\<rfloor>" by (rule floor_mono)
  show ?thesis
  proof (cases "\<lfloor>x\<rfloor> = \<lfloor>y\<rfloor>")
    case True
    then show ?thesis using xy by (auto simp: round_half_even_def Let_def)
  next
    case False
    with f have "\<lfloor>x\<rfloor> + 1 \<le> \<lfloor>y\<rfloor>" by simp
    then show ?thesis using round_half_even_floor [of x] round_half_even_floor [of y] by linarith
  qed
qed

lemma round_half_even_minus: "round_half_even (- x) = - round_half_even x"
proof (cases "x \<in> \<int>")
  case True
  then obtain n where "x = of_int n" by (auto elim: Ints_cases)
  then show ?thesis by (simp flip: of_int_minus)
next
  case False
  have "x \<noteq> real_of_int \<lfloor>x\<rfloor>" using False by (metis Ints_of_int)
  then have "\<lceil>x\<rceil> = \<lfloor>x\<rfloor> + 1" by (simp add: ceiling_altdef)
  then have c: "\<lfloor>- x\<rfloor> = - \<lfloor>x\<rfloor> - 1" by (simp add: ceiling_def)
  show ?thesis
    unfolding round_half_even_def Let_def c
    by auto
qed

lemma float_exponent_from_props:
  "- 126 \<le> float_exponent_from n a \<and> float_exponent_from n a \<le> int n - 126
   \<and> (- 126 < float_exponent_from n a \<longrightarrow> 2 powi float_exponent_from n a \<le> a)
   \<and> (float_exponent_from n a < int n - 126 \<longrightarrow> a < 2 powi (float_exponent_from n a + 1))"
proof (induction n)
  case 0
  show ?case by simp
next
  case (Suc n)
  show ?case
  proof (cases "2 powi (int n - 125) \<le> a")
    case True
    then show ?thesis by simp
  next
    case nle: False
    then have e: "float_exponent_from (Suc n) a = float_exponent_from n a" by simp
    have u: "a < 2 powi (float_exponent_from n a + 1)"
    proof (cases "float_exponent_from n a = int n - 126")
      case True
      then have "float_exponent_from n a + 1 = int n - 125" by simp
      then have "(2::real) powi (float_exponent_from n a + 1) = 2 powi (int n - 125)"
        by (rule arg_cong)
      then show ?thesis using nle by linarith
    next
      case False
      then show ?thesis using Suc by simp
    qed
    show ?thesis unfolding e using Suc u by simp
  qed
qed

lemma float_exponent_range: "- 126 \<le> float_exponent x \<and> float_exponent x \<le> 127"
  using float_exponent_from_props [of 253 "\<bar>x\<bar>"] by (simp add: float_exponent_def)

lemma float_exponent_lower: "- 126 < float_exponent x \<Longrightarrow> 2 powi float_exponent x \<le> \<bar>x\<bar>"
  using float_exponent_from_props [of 253 "\<bar>x\<bar>"] by (simp add: float_exponent_def)

lemma float_exponent_upper: "float_exponent x < 127 \<Longrightarrow> \<bar>x\<bar> < 2 powi (float_exponent x + 1)"
  using float_exponent_from_props [of 253 "\<bar>x\<bar>"] by (simp add: float_exponent_def)

lemma float_exponent_leI:
  assumes "- 126 < k \<Longrightarrow> 2 powi k \<le> \<bar>x\<bar>" and "k \<le> 127"
  shows "k \<le> float_exponent x"
proof (rule ccontr)
  assume "\<not> k \<le> float_exponent x"
  then have lt: "float_exponent x < k" by simp
  then have "float_exponent x < 127" using assms(2) by simp
  then have "\<bar>x\<bar> < 2 powi (float_exponent x + 1)" by (rule float_exponent_upper)
  also have "\<dots> \<le> 2 powi k" using lt by (intro power_int_increasing) simp_all
  also have "\<dots> \<le> \<bar>x\<bar>" using lt float_exponent_range [of x] by (intro assms(1)) simp
  finally show False by simp
qed

lemma float_exponent_geI:
  assumes "k < 127 \<Longrightarrow> \<bar>x\<bar> < 2 powi (k + 1)" and "- 126 \<le> k"
  shows "float_exponent x \<le> k"
proof (rule ccontr)
  assume "\<not> float_exponent x \<le> k"
  then have lt: "k < float_exponent x" by simp
  then have k: "k < 127" using float_exponent_range [of x] by simp
  have "- 126 < float_exponent x" using lt assms(2) by simp
  then have "2 powi float_exponent x \<le> \<bar>x\<bar>" by (rule float_exponent_lower)
  also have "\<dots> < 2 powi (k + 1)" using k by (rule assms(1))
  also have "\<dots> \<le> 2 powi float_exponent x" using lt by (intro power_int_increasing) simp_all
  finally show False by simp
qed

lemma float_exponent_eqI:
  assumes "- 126 < k \<Longrightarrow> 2 powi k \<le> \<bar>x\<bar>" and "k < 127 \<Longrightarrow> \<bar>x\<bar> < 2 powi (k + 1)"
    and "- 126 \<le> k" and "k \<le> 127"
  shows "float_exponent x = k"
  using float_exponent_leI [of k x] float_exponent_geI [of k x] assms by force

lemma float_exponent_minus: "float_exponent (- x) = float_exponent x"
  by (simp add: float_exponent_def)

lemma float_exponent_mono: "\<bar>x\<bar> \<le> \<bar>y\<bar> \<Longrightarrow> float_exponent x \<le> float_exponent y"
proof (rule float_exponent_leI)
  assume xy: "\<bar>x\<bar> \<le> \<bar>y\<bar>"
  show "2 powi float_exponent x \<le> \<bar>y\<bar>" if "- 126 < float_exponent x"
    using float_exponent_lower [OF that] xy by simp
  show "float_exponent x \<le> 127" using float_exponent_range [of x] by simp
qed

lemma float_ulp_pos: "0 < float_ulp x"
  by (simp add: float_ulp_def)

lemma float_ulp_minus: "float_ulp (- x) = float_ulp x"
  by (simp add: float_ulp_def float_exponent_minus)

lemma nearest_float_minus: "nearest_float (- x) = - nearest_float x"
  by (simp add: nearest_float_def float_ulp_minus round_half_even_minus)

lemma nearest_float_fixedI:
  assumes "x / float_ulp x = real_of_int n"
  shows "nearest_float x = x"
proof -
  have "nearest_float x = float_ulp x * (x / float_ulp x)"
    unfolding nearest_float_def assms by simp
  then show ?thesis using float_ulp_pos [of x] by simp
qed

lemma two_powi_nonneg: "0 \<le> j \<Longrightarrow> (2::real) powi j = real_of_int (2 ^ nat j)"
  by (simp add: power_int_def)

lemma nearest_float_grid:
  assumes "x = real_of_int m * 2 powi k" and "\<bar>m\<bar> < 2 ^ 24" and "- 149 \<le> k"
  shows "nearest_float x = x"
proof -
  define e where "e = float_exponent x"
  have le: "e - 23 \<le> k"
  proof (cases "- 126 < e")
    case False
    then show ?thesis using assms(3) by simp
  next
    case True
    then have "2 powi e \<le> \<bar>x\<bar>" unfolding e_def by (rule float_exponent_lower)
    also have "\<bar>x\<bar> = real_of_int \<bar>m\<bar> * 2 powi k" by (simp add: assms(1) abs_mult)
    also have "\<dots> < 2 ^ 24 * 2 powi k"
    proof (rule mult_strict_right_mono)
      show "real_of_int \<bar>m\<bar> < 2 ^ 24" using assms(2) by (metis of_int_less_iff of_int_numeral of_int_power)
    qed simp
    also have "\<dots> = 2 powi (24 + k)" by (simp add: power_int_add)
    finally have "2 powi e < (2::real) powi (24 + k)" .
    then have "e < 24 + k"
      using power_int_increasing [of "24 + k" e "2::real"] by force
    then show ?thesis by simp
  qed
  have "x / float_ulp x = real_of_int m * (2 powi k / 2 powi (e - 23))"
    by (simp add: assms(1) float_ulp_def e_def)
  also have "2 powi k / 2 powi (e - 23) = (2::real) powi (k - (e - 23))"
    by (simp add: power_int_diff)
  also have "\<dots> = real_of_int (2 ^ nat (k - (e - 23)))"
    using le by (intro two_powi_nonneg) simp
  finally have "x / float_ulp x = real_of_int (m * 2 ^ nat (k - (e - 23)))" by simp
  then show ?thesis by (rule nearest_float_fixedI)
qed

lemma two_powi_split:
  "(2::real) powi (e + 1) = 2 powi (e - 23) * 2 ^ 24" "(2::real) powi e = 2 powi (e - 23) * 2 ^ 23"
proof -
  have "(2::real) powi (e + 1) = 2 powi ((e - 23) + 24)"
    by (rule arg_cong [where f = "power_int 2"]) simp
  also have "\<dots> = 2 powi (e - 23) * 2 powi 24" by (rule power_int_add) simp
  finally show "(2::real) powi (e + 1) = 2 powi (e - 23) * 2 ^ 24" by simp
  have "(2::real) powi e = 2 powi ((e - 23) + 23)"
    by (rule arg_cong [where f = "power_int 2"]) simp
  also have "\<dots> = 2 powi (e - 23) * 2 powi 23" by (rule power_int_add) simp
  finally show "(2::real) powi e = 2 powi (e - 23) * 2 ^ 23" by simp
qed

lemma nearest_float_of_int: "\<bar>m\<bar> < 2 ^ 24 \<Longrightarrow> nearest_float (real_of_int m) = real_of_int m"
  using nearest_float_grid [of "real_of_int m" m 0] by simp

lemma nearest_float_0 [simp]: "nearest_float 0 = 0"
  using nearest_float_of_int [of 0] by simp

lemma nearest_float_nonneg: "0 \<le> x \<Longrightarrow> 0 \<le> nearest_float x"
proof -
  assume "0 \<le> x"
  then have "0 \<le> x / float_ulp x" using float_ulp_pos [of x] by simp
  then have "round_half_even 0 \<le> round_half_even (x / float_ulp x)" by (rule round_half_even_mono)
  then have "0 \<le> round_half_even (x / float_ulp x)" using round_half_even_of_int [of 0] by simp
  then show ?thesis
    unfolding nearest_float_def using float_ulp_pos [of x] by simp
qed

lemma nearest_float_upper:
  assumes "0 \<le> x" and "float_exponent x < 127"
  shows "nearest_float x \<le> 2 powi (float_exponent x + 1)"
proof -
  define e where "e = float_exponent x"
  have u: "float_ulp x = 2 powi (e - 23)" by (simp add: float_ulp_def e_def)
  have "x < 2 powi (e + 1)" using float_exponent_upper [OF assms(2)] assms(1) by (simp add: e_def)
  then have "x / float_ulp x \<le> 2 powi (e + 1) / 2 powi (e - 23)"
    unfolding u by (intro divide_right_mono) simp_all
  also have "\<dots> = 2 powi 24" by (simp flip: power_int_diff)
  also have "\<dots> = real_of_int (2 ^ 24)" by simp
  finally have "round_half_even (x / float_ulp x) \<le> round_half_even (real_of_int (2 ^ 24))"
    by (rule round_half_even_mono)
  then have "real_of_int (round_half_even (x / float_ulp x)) \<le> 2 ^ 24"
    unfolding round_half_even_of_int by (metis of_int_le_iff of_int_numeral of_int_power)
  then have "nearest_float x \<le> 2 powi (e - 23) * 2 ^ 24"
    unfolding nearest_float_def u by (intro mult_left_mono) simp_all
  then show ?thesis unfolding e_def two_powi_split(1) [of "float_exponent x"] .
qed

lemma nearest_float_lower:
  assumes "0 \<le> x" and "- 126 < float_exponent x"
  shows "2 powi float_exponent x \<le> nearest_float x"
proof -
  define e where "e = float_exponent x"
  have u: "float_ulp x = 2 powi (e - 23)" by (simp add: float_ulp_def e_def)
  have "2 powi e \<le> x" using float_exponent_lower [OF assms(2)] assms(1) by (simp add: e_def)
  then have "2 powi e / 2 powi (e - 23) \<le> x / float_ulp x"
    unfolding u by (intro divide_right_mono) simp_all
  moreover have "2 powi e / 2 powi (e - 23) = (2::real) powi 23" by (simp flip: power_int_diff)
  moreover have "(2::real) powi 23 = real_of_int (2 ^ 23)" by simp
  ultimately have "real_of_int (2 ^ 23) \<le> x / float_ulp x" by simp
  then have "round_half_even (real_of_int (2 ^ 23)) \<le> round_half_even (x / float_ulp x)"
    by (rule round_half_even_mono)
  then have "2 ^ 23 \<le> real_of_int (round_half_even (x / float_ulp x))"
    unfolding round_half_even_of_int by (metis of_int_le_iff of_int_numeral of_int_power)
  then have "2 powi (e - 23) * 2 ^ 23 \<le> nearest_float x"
    unfolding nearest_float_def u by (intro mult_left_mono) simp_all
  then show ?thesis unfolding e_def two_powi_split(2) [of "float_exponent x"] .
qed

lemma nearest_float_mono_nonneg:
  assumes "0 \<le> x" and "x \<le> y"
  shows "nearest_float x \<le> nearest_float y"
proof -
  have y0: "0 \<le> y" using assms by simp
  have le: "float_exponent x \<le> float_exponent y"
    using assms by (intro float_exponent_mono) simp
  show ?thesis
  proof (cases "float_exponent x = float_exponent y")
    case True
    then have u: "float_ulp y = float_ulp x" by (simp add: float_ulp_def)
    have "x / float_ulp x \<le> y / float_ulp x"
      using assms(2) float_ulp_pos [of x] by (simp add: divide_right_mono)
    then have "round_half_even (x / float_ulp x) \<le> round_half_even (y / float_ulp x)"
      by (rule round_half_even_mono)
    then show ?thesis
      unfolding nearest_float_def u using float_ulp_pos [of x] by simp
  next
    case False
    with le have lt: "float_exponent x < float_exponent y" by simp
    then have "float_exponent x < 127" "- 126 < float_exponent y"
      using float_exponent_range [of x] float_exponent_range [of y] by simp_all
    then have "nearest_float x \<le> 2 powi (float_exponent x + 1)"
      and "2 powi float_exponent y \<le> nearest_float y"
      using assms(1) y0 nearest_float_upper nearest_float_lower by simp_all
    moreover have "(2::real) powi (float_exponent x + 1) \<le> 2 powi float_exponent y"
      using lt by (intro power_int_increasing) simp_all
    ultimately show ?thesis by linarith
  qed
qed

lemma nearest_float_mono: "x \<le> y \<Longrightarrow> nearest_float x \<le> nearest_float y"
proof -
  assume xy: "x \<le> y"
  consider "0 \<le> x" | "y \<le> 0" | "x < 0" "0 < y" by linarith
  then show ?thesis
  proof cases
    case 1
    then show ?thesis using xy by (rule nearest_float_mono_nonneg)
  next
    case 2
    then have "nearest_float (- y) \<le> nearest_float (- x)"
      using xy by (intro nearest_float_mono_nonneg) simp_all
    then show ?thesis by (simp add: nearest_float_minus)
  next
    case 3
    then have "0 \<le> nearest_float (- x)" "0 \<le> nearest_float y"
      by (simp_all add: nearest_float_nonneg)
    then show ?thesis by (simp add: nearest_float_minus)
  qed
qed

lemma nearest_float_idem_nonneg:
  assumes "0 \<le> x"
  shows "nearest_float (nearest_float x) = nearest_float x"
proof -
  define r where "r = nearest_float x"
  define e where "e = float_exponent x"
  have r0: "0 \<le> r" unfolding r_def using assms by (rule nearest_float_nonneg)
  have ge: "e \<le> float_exponent r"
  proof (rule float_exponent_leI)
    show "2 powi e \<le> \<bar>r\<bar>" if "- 126 < e"
      using nearest_float_lower [OF assms] that r0 by (simp add: e_def r_def)
    show "e \<le> 127" using float_exponent_range [of x] by (simp add: e_def)
  qed
  show ?thesis
  proof (cases "float_exponent r = e")
    case True
    then have "float_ulp r = float_ulp x" by (simp add: float_ulp_def e_def)
    then have "r / float_ulp r = real_of_int (round_half_even (x / float_ulp x))"
      using float_ulp_pos [of x] by (simp add: r_def nearest_float_def)
    then show ?thesis unfolding r_def [symmetric] by (rule nearest_float_fixedI)
  next
    case False
    with ge have gt: "e < float_exponent r" by simp
    then have e127: "e < 127" using float_exponent_range [of r] by simp
    have "- 126 < float_exponent r" using gt float_exponent_range [of x] by (simp add: e_def)
    then have "2 powi float_exponent r \<le> r" using float_exponent_lower [of r] r0 by simp
    moreover have "r \<le> 2 powi (e + 1)"
      using nearest_float_upper [OF assms] e127 by (simp add: e_def r_def)
    moreover have "(2::real) powi (e + 1) \<le> 2 powi float_exponent r"
      using gt by (intro power_int_increasing) simp_all
    ultimately have r: "r = 2 powi (e + 1)" by linarith
    have "nearest_float r = r"
    proof (rule nearest_float_grid)
      show "r = real_of_int 1 * 2 powi (e + 1)" using r by simp
      show "\<bar>1::int\<bar> < 2 ^ 24" by simp
      show "- 149 \<le> e + 1" using float_exponent_range [of x] by (simp add: e_def)
    qed
    then show ?thesis by (simp add: r_def)
  qed
qed

lemma nearest_float_idem: "nearest_float (nearest_float x) = nearest_float x"
proof (cases "0 \<le> x")
  case True
  then show ?thesis by (rule nearest_float_idem_nonneg)
next
  case False
  then have "nearest_float (nearest_float (- x)) = nearest_float (- x)"
    by (intro nearest_float_idem_nonneg) simp
  then show ?thesis by (simp add: nearest_float_minus)
qed

lemma FLT_MAX_grid: "FLT_MAX = real_of_int (2 ^ 24 - 1) * 2 powi 104"
  by (simp add: FLT_MAX_def)

lemma nearest_float_FLT_MAX: "nearest_float FLT_MAX = FLT_MAX"
  using FLT_MAX_grid by (rule nearest_float_grid) simp_all

lemma nearest_float_abs_le:
  assumes "\<bar>x\<bar> \<le> b" and "nearest_float b = b"
  shows "\<bar>nearest_float x\<bar> \<le> b"
proof -
  have "nearest_float x \<le> nearest_float b" using assms(1) by (intro nearest_float_mono) simp
  moreover have "nearest_float (- b) \<le> nearest_float x"
    using assms(1) by (intro nearest_float_mono) simp
  ultimately show ?thesis using assms(2) by (simp add: nearest_float_minus)
qed

lemma to_float_Inr: "\<bar>x\<bar> \<le> FLT_MAX \<Longrightarrow> to_float x = Inr (nearest_float x)"
  by (simp add: to_float_def)

lemma with_float_eq: "\<bar>x\<bar> \<le> FLT_MAX \<Longrightarrow> with_float x k = k (nearest_float x)"
  by (simp add: with_float_def to_float_def)

lemma to_float_idem:
  assumes "to_float x = Inr y"
  shows "to_float y = Inr y"
proof -
  from assms have x: "\<bar>x\<bar> \<le> FLT_MAX" and y: "y = nearest_float x"
    by (auto simp: to_float_def split: if_splits)
  have "\<bar>y\<bar> \<le> FLT_MAX" unfolding y using x nearest_float_FLT_MAX by (rule nearest_float_abs_le)
  then show ?thesis by (simp add: to_float_Inr y nearest_float_idem)
qed

lemma to_float_fixed: "to_float x = Inr x \<longleftrightarrow> \<bar>x\<bar> \<le> FLT_MAX \<and> nearest_float x = x"
  by (auto simp: to_float_def)

lemma FLT_MAX_ge: "2 ^ 127 \<le> FLT_MAX"
  by (simp add: FLT_MAX_def)

lemma to_float_of_int:
  assumes "\<bar>m\<bar> < 2 ^ 24"
  shows "to_float (real_of_int m) = Inr (real_of_int m)"
proof -
  have "real_of_int \<bar>m\<bar> < 2 ^ 24" using assms by (metis of_int_less_iff of_int_numeral of_int_power)
  then have "\<bar>real_of_int m\<bar> \<le> FLT_MAX" using FLT_MAX_ge by simp
  then show ?thesis using assms by (simp add: to_float_Inr nearest_float_of_int)
qed

lemma nearest_float_numeral:
  "numeral n < (2::int) ^ 24 \<Longrightarrow> nearest_float (numeral n) = numeral n"
  using nearest_float_of_int [of "numeral n"] by simp

lemma to_float_numeral:
  "numeral n < (2::int) ^ 24 \<Longrightarrow> to_float (numeral n) = Inr (numeral n)"
  using to_float_of_int [of "numeral n"] by simp

lemma to_float_0: "to_float 0 = Inr 0"
  using to_float_of_int [of 0] by simp

lemma to_float_1: "to_float 1 = Inr 1"
  using to_float_of_int [of 1] by simp

lemma with_float_0: "with_float 0 k = k 0"
  by (simp add: with_float_def to_float_0)

lemma with_float_1: "with_float 1 k = k 1"
  by (simp add: with_float_def to_float_1)

lemma with_float_numeral:
  "numeral n < (2::int) ^ 24 \<Longrightarrow> with_float (numeral n) k = k (numeral n)"
  by (simp add: with_float_def to_float_numeral)

lemma nearest_float_2_126: "nearest_float (2 ^ 126) = 2 ^ 126"
  using nearest_float_grid [of "2 ^ 126" 1 126] by simp

lemma atan2_bounds:
  assumes "0 \<le> y" and "0 \<le> x"
  shows "0 \<le> atan2 y x \<and> atan2 y x \<le> pi / 2"
proof (cases "0 < x")
  case True
  then have "0 \<le> y / x" using assms(1) by simp
  then have "0 \<le> arctan (y / x)" by simp
  moreover have "arctan (y / x) \<le> pi / 2" using arctan_ubound [of "y / x"] by simp
  ultimately show ?thesis using True by (simp add: atan2_def)
next
  case False
  with assms(2) have "x = 0" by simp
  then show ?thesis using assms(1) pi_gt_zero by (simp add: atan2_def)
qed

subsection \<open>Rounding a length\<close>

lemma nearest_float_error: "\<bar>nearest_float x - x\<bar> \<le> float_ulp x / 2"
proof -
  define u where "u = float_ulp x"
  have u: "0 < u" unfolding u_def by (rule float_ulp_pos)
  have "\<bar>real_of_int (round_half_even (x / u)) - x / u\<bar> \<le> 1 / 2"
    using round_half_even_bounds [of "x / u"] by linarith
  then have "u * \<bar>real_of_int (round_half_even (x / u)) - x / u\<bar> \<le> u * (1 / 2)"
    using u by (intro mult_left_mono) simp_all
  moreover have "\<bar>u * (real_of_int (round_half_even (x / u)) - x / u)\<bar>
      = u * \<bar>real_of_int (round_half_even (x / u)) - x / u\<bar>"
    using u by (simp add: abs_mult)
  moreover have "u * (real_of_int (round_half_even (x / u)) - x / u)
      = u * real_of_int (round_half_even (x / u)) - x"
    using u by (simp add: right_diff_distrib)
  ultimately have "\<bar>u * real_of_int (round_half_even (x / u)) - x\<bar> \<le> u * (1 / 2)"
    by simp
  then show ?thesis by (simp add: nearest_float_def u_def)
qed

lemma float_ulp_le:
  assumes "- 126 < float_exponent x"
  shows "float_ulp x \<le> \<bar>x\<bar> / 2 ^ 23"
proof -
  have "2 powi (float_exponent x - 23) * 2 ^ 23 \<le> \<bar>x\<bar>"
    using float_exponent_lower [OF assms] two_powi_split(2) [of "float_exponent x"] by simp
  then show ?thesis by (simp add: float_ulp_def field_simps)
qed

lemma float_ulp_gt:
  assumes "float_exponent x < 127"
  shows "\<bar>x\<bar> / 2 ^ 24 < float_ulp x"
proof -
  have "\<bar>x\<bar> < 2 powi (float_exponent x - 23) * 2 ^ 24"
    using float_exponent_upper [OF assms] two_powi_split(1) [of "float_exponent x"] by simp
  then show ?thesis by (simp add: float_ulp_def field_simps)
qed

lemma float_multiple:
  assumes "nearest_float x = x"
  shows "x = float_ulp x * real_of_int (round_half_even (x / float_ulp x))"
  using assms by (simp add: nearest_float_def)

lemma float_gap:
  assumes "nearest_float s = s" and "nearest_float t = t" and "0 \<le> s" and "s < t"
  shows "s + float_ulp s \<le> t"
proof -
  define a where "a = round_half_even (s / float_ulp s)"
  define b where "b = round_half_even (t / float_ulp t)"
  define j where "j = nat (float_exponent t - float_exponent s)"
  have s: "s = float_ulp s * real_of_int a" unfolding a_def using assms(1) by (rule float_multiple)
  have t: "t = float_ulp t * real_of_int b" unfolding b_def using assms(2) by (rule float_multiple)
  have "float_exponent s \<le> float_exponent t"
    using assms(3,4) by (intro float_exponent_mono) simp
  then have "float_exponent t - 23 = (float_exponent s - 23) + int j" by (simp add: j_def)
  then have "float_ulp t = 2 powi ((float_exponent s - 23) + int j)"
    unfolding float_ulp_def by (rule arg_cong)
  also have "\<dots> = 2 powi (float_exponent s - 23) * 2 powi int j"
    by (rule power_int_add) simp
  finally have ut: "float_ulp t = float_ulp s * real_of_int (2 ^ j)"
    by (simp add: float_ulp_def)
  have t': "t = float_ulp s * real_of_int (2 ^ j * b)"
    by (subst t) (simp add: ut)
  have "float_ulp s * real_of_int a < float_ulp s * real_of_int (2 ^ j * b)"
    using assms(4) s t' by simp
  then have "real_of_int a < real_of_int (2 ^ j * b)"
    using float_ulp_pos [of s] by (simp only: mult_less_cancel_left_pos)
  then have "a + 1 \<le> 2 ^ j * b" by linarith
  then have "real_of_int (a + 1) \<le> real_of_int (2 ^ j * b)" by (simp only: of_int_le_iff)
  then have "float_ulp s * real_of_int (a + 1) \<le> float_ulp s * real_of_int (2 ^ j * b)"
    using float_ulp_pos [of s] by (intro mult_left_mono) simp_all
  moreover have "float_ulp s * real_of_int (a + 1) = s + float_ulp s"
    by (subst (2) s) (simp add: distrib_left)
  ultimately show ?thesis using t' by simp
qed

lemma quotient_below:
  assumes "nearest_float s = s" and "1 \<le> s" and "s < 2 ^ 24"
    and "nearest_float (10 * real_of_int n) = 10 * real_of_int n" and "s < 10 * real_of_int n"
  shows "nearest_float (s / 10) < real_of_int n"
proof -
  have "- 4 \<le> float_exponent (s / 10)"
  proof (rule float_exponent_leI)
    have "(2::real) powi - 4 = 1 / 16" by (simp add: power_int_minus)
    then show "2 powi - 4 \<le> \<bar>s / 10\<bar>" using assms(2) by simp
  qed simp
  then have "- 126 < float_exponent (s / 10)" by simp
  then have "float_ulp (s / 10) \<le> \<bar>s / 10\<bar> / 2 ^ 23" by (rule float_ulp_le)
  then have u: "float_ulp (s / 10) / 2 \<le> s / 10 / 2 ^ 24" using assms(2) by simp
  have "nearest_float (s / 10) \<le> s / 10 + float_ulp (s / 10) / 2"
    using nearest_float_error [of "s / 10"] by linarith
  then have q: "nearest_float (s / 10) \<le> (s + s / 2 ^ 24) / 10" using u by (simp add: field_simps)
  have "float_exponent s \<le> 23"
  proof (rule float_exponent_geI)
    show "\<bar>s\<bar> < 2 powi (23 + 1)" using assms(2,3) by simp
  qed simp
  then have "float_exponent s < 127" by simp
  then have "\<bar>s\<bar> / 2 ^ 24 < float_ulp s" by (rule float_ulp_gt)
  then have "s + s / 2 ^ 24 < s + float_ulp s" using assms(2) by simp
  also have "\<dots> \<le> 10 * real_of_int n"
    using assms(1,4) _ assms(5) by (rule float_gap) (use assms(2) in simp)
  finally have "(s + s / 2 ^ 24) / 10 < real_of_int n" by simp
  with q show ?thesis by linarith
qed

lemma sint_word_of_int_32:
  "- (2 ^ 31) \<le> k \<Longrightarrow> k < 2 ^ 31 \<Longrightarrow> sint (word_of_int k :: 32 word) = k"
  by (simp add: signed_of_int signed_take_bit_int_eq_self)

lemma float_sum_bounds:
  assumes "0 \<le> len" and "len \<le> 16777200"
  shows "5 \<le> nearest_float (len + 5)" and "nearest_float (len + 5) \<le> 16777205"
proof -
  have "nearest_float 5 \<le> nearest_float (len + 5)"
    using assms(1) by (intro nearest_float_mono) simp
  moreover have "nearest_float 5 = 5" by (rule nearest_float_numeral) simp
  ultimately show "5 \<le> nearest_float (len + 5)" by simp
  have "nearest_float (len + 5) \<le> nearest_float 16777205"
    using assms(2) by (intro nearest_float_mono) simp
  moreover have "nearest_float 16777205 = 16777205" by (rule nearest_float_numeral) simp
  ultimately show "nearest_float (len + 5) \<le> 16777205" by simp
qed

lemma quotient_floor:
  assumes "nearest_float s = s" and "5 \<le> s" and "s \<le> 16777205"
  shows "\<lfloor>nearest_float (s / 10)\<rfloor> = \<lfloor>s / 10\<rfloor>"
proof -
  define t where "t = \<lfloor>s / 10\<rfloor>"
  have t0: "0 \<le> t" using assms(2) by (simp add: t_def)
  have "s / 10 < 1677721" using assms(3) by simp
  then have t1: "t < 1677721" unfolding t_def by (simp add: floor_less_iff)
  have "real_of_int t \<le> s / 10" unfolding t_def by (rule of_int_floor_le)
  then have "nearest_float (real_of_int t) \<le> nearest_float (s / 10)" by (rule nearest_float_mono)
  moreover have "nearest_float (real_of_int t) = real_of_int t"
    using t0 t1 by (intro nearest_float_of_int) simp
  ultimately have ge: "t \<le> \<lfloor>nearest_float (s / 10)\<rfloor>" by (simp add: le_floor_iff)
  have "nearest_float (s / 10) < real_of_int (t + 1)"
  proof (rule quotient_below [OF assms(1)])
    show "1 \<le> s" using assms(2) by simp
    show "s < 2 ^ 24" using assms(3) by simp
    have "nearest_float (real_of_int (10 * (t + 1))) = real_of_int (10 * (t + 1))"
      using t0 t1 by (intro nearest_float_of_int) simp
    then show "nearest_float (10 * real_of_int (t + 1)) = 10 * real_of_int (t + 1)" by simp
    have "s / 10 < real_of_int t + 1" unfolding t_def by (rule real_of_int_floor_add_one_gt)
    then show "s < 10 * real_of_int (t + 1)" by simp
  qed
  then have "\<lfloor>nearest_float (s / 10)\<rfloor> < t + 1" by (simp only: floor_less_iff)
  with ge show ?thesis unfolding t_def by simp
qed

lemma round10_floor:
  assumes "to_float len = Inr len" and "0 \<le> len" and "len \<le> 16777200"
  shows "round10 (Number len) = Inr (10 * real_of_int \<lfloor>nearest_float (len + 5) / 10\<rfloor>)"
proof -
  define s where "s = nearest_float (len + 5)"
  define q where "q = nearest_float (s / 10)"
  define t where "t = \<lfloor>s / 10\<rfloor>"
  have s: "5 \<le> s" "s \<le> 16777205" unfolding s_def using assms(2,3) by (rule float_sum_bounds)+
  have fs: "nearest_float s = s" unfolding s_def by (rule nearest_float_idem)
  have qt: "\<lfloor>q\<rfloor> = t" unfolding q_def t_def using fs s by (rule quotient_floor)
  have t0: "0 \<le> t" using s(1) by (simp add: t_def)
  have "s / 10 < 1677721" using s(2) by simp
  then have t1: "t < 1677721" unfolding t_def by (simp add: floor_less_iff)
  have q0: "0 \<le> q" unfolding q_def using s(1) by (intro nearest_float_nonneg) simp
  have 1: "with_float len k = k len" for k :: "real \<Rightarrow> fault + real"
    by (simp add: with_float_def assms(1))
  have 2: "with_float (len + 5) k = k s" for k :: "real \<Rightarrow> fault + real"
    unfolding s_def using assms(2,3) by (intro with_float_eq) (simp add: FLT_MAX_def)
  have 3: "with_float (s / 10) k = k q" for k :: "real \<Rightarrow> fault + real"
    unfolding q_def using s by (intro with_float_eq) (simp add: FLT_MAX_def)
  have 4: "float_to_int q = Some (word_of_int t)"
    using q0 qt t0 t1 by (simp add: float_to_int_def)
  have m: "(word_of_int t :: 32 word) * 10 = word_of_int (10 * t)" by simp
  have 5: "sint ((word_of_int t :: 32 word) * 10) = 10 * t"
    unfolding m using t0 t1 by (intro sint_word_of_int_32) auto
  have 6: "to_float (real_of_int (10 * t)) = Inr (real_of_int (10 * t))"
    using t0 t1 by (intro to_float_of_int) simp
  have "round10 (Number len) = to_float (real_of_int (sint ((word_of_int t :: 32 word) * 10)))"
    by (simp only: round10_def c_float.case 1 2 3 4 option.case)
  also have "\<dots> = Inr (real_of_int (10 * t))" by (simp only: 5 6)
  finally show ?thesis by (simp add: t_def s_def)
qed

lemma sum_error:
  assumes "0 \<le> len"
  shows "\<bar>nearest_float (len + 5) - (len + 5)\<bar> \<le> (len + 5) / 2 ^ 24"
proof -
  have "2 \<le> float_exponent (len + 5)"
  proof (rule float_exponent_leI)
    show "2 powi 2 \<le> \<bar>len + 5\<bar>" using assms by simp
  qed simp
  then have "- 126 < float_exponent (len + 5)" by simp
  then have "float_ulp (len + 5) \<le> \<bar>len + 5\<bar> / 2 ^ 23" by (rule float_ulp_le)
  then have "float_ulp (len + 5) / 2 \<le> (len + 5) / 2 ^ 24" using assms by simp
  then show ?thesis using nearest_float_error [of "len + 5"] by linarith
qed

lemma sum_floor_bounds:
  assumes "0 \<le> len" and "len \<le> 16777200"
  shows "len - 5 < 10 * real_of_int \<lfloor>nearest_float (len + 5) / 10\<rfloor>"
    and "10 * real_of_int \<lfloor>nearest_float (len + 5) / 10\<rfloor> \<le> nearest_float (len + 5)"
proof -
  define k where "k = \<lfloor>(len + 5) / 10\<rfloor>"
  have k0: "0 \<le> k" using assms(1) by (simp add: k_def)
  have "(len + 5) / 10 < 1677721" using assms(2) by simp
  then have k1: "k < 1677721" unfolding k_def by (simp add: floor_less_iff)
  have "real_of_int k \<le> (len + 5) / 10" unfolding k_def by (rule of_int_floor_le)
  then have "real_of_int (10 * k) \<le> len + 5" by simp
  then have "nearest_float (real_of_int (10 * k)) \<le> nearest_float (len + 5)"
    by (rule nearest_float_mono)
  moreover have "nearest_float (real_of_int (10 * k)) = real_of_int (10 * k)"
    using k0 k1 by (intro nearest_float_of_int) simp
  ultimately have "real_of_int k \<le> nearest_float (len + 5) / 10" by simp
  then have "k \<le> \<lfloor>nearest_float (len + 5) / 10\<rfloor>" by (simp only: le_floor_iff)
  then have "10 * real_of_int k \<le> 10 * real_of_int \<lfloor>nearest_float (len + 5) / 10\<rfloor>"
    by simp
  moreover have "(len + 5) / 10 < real_of_int k + 1"
    unfolding k_def by (rule real_of_int_floor_add_one_gt)
  ultimately show "len - 5 < 10 * real_of_int \<lfloor>nearest_float (len + 5) / 10\<rfloor>" by argo
  show "10 * real_of_int \<lfloor>nearest_float (len + 5) / 10\<rfloor> \<le> nearest_float (len + 5)"
    using of_int_floor_le [of "nearest_float (len + 5) / 10"] by argo
qed

lemma nearest_float_tie: "nearest_float (20971519 / 2097152) = 10"
proof -
  have e: "float_exponent (20971519 / 2097152) = 3"
    by (rule float_exponent_eqI) simp_all
  show ?thesis
    by (simp add: nearest_float_def float_ulp_def e round_half_even_def)
qed

lemma to_float_below_5: "to_float (10485759 / 2097152) = Inr (10485759 / 2097152)"
proof -
  have "nearest_float (10485759 / 2097152) = 10485759 / 2097152"
    by (rule nearest_float_grid [of _ 10485759 "- 21"]) (simp_all add: power_int_minus)
  then show ?thesis by (simp add: to_float_def FLT_MAX_def)
qed

text \<open>
  C6, as the claim states it, fails: \<^verbatim>\<open>round10\<close> of the length 1 is 0, and 1 rounded up
  to a multiple of 10 is 10.
\<close>

theorem round10_not_rounded_up:
  "round10 (Number 1) = Inr 0 \<and> rounded_up_to_10 1 = 10
   \<and> round10 (Number 1) \<noteq> Inr (rounded_up_to_10 1)"
proof -
  have "nearest_float 6 = 6" by (rule nearest_float_numeral) simp
  then have "round10 (Number 1) = Inr 0"
    using round10_floor [OF to_float_1] by simp
  moreover have "rounded_up_to_10 1 = 10"
    by (simp add: rounded_up_to_10_def ceiling_eq_iff)
  ultimately show ?thesis by simp
qed

text \<open>
  C6, amended. For a length \<open>len\<close> that is a \<^verbatim>\<open>float\<close>, not negative and at most
  16777200, \<^verbatim>\<open>round10\<close> returns \<open>10 * \<lfloor>s / 10\<rfloor>\<close>, where \<open>s\<close> is the \<^verbatim>\<open>float\<close> nearest to
  \<open>len + 5\<close>, the sum as the code computes it; \<open>s\<close> differs from \<open>len + 5\<close> by at most
  \<open>(len + 5) / 2^24\<close>. The result is a multiple of 10 above \<open>len - 5\<close> and at most \<open>s\<close>: the
  multiple of 10 nearest to \<open>len\<close>, where a length half way between two multiples goes up,
  and so does a length so little below half way that the sum is rounded to the multiple
  above.
\<close>

theorem round10_nearest:
  "to_float len = Inr len \<Longrightarrow> 0 \<le> len \<Longrightarrow> len \<le> 16777200 \<Longrightarrow>
     round10 (Number len) = Inr (10 * real_of_int \<lfloor>nearest_float (len + 5) / 10\<rfloor>)
     \<and> len - 5 < 10 * real_of_int \<lfloor>nearest_float (len + 5) / 10\<rfloor>
     \<and> 10 * real_of_int \<lfloor>nearest_float (len + 5) / 10\<rfloor> \<le> nearest_float (len + 5)
     \<and> \<bar>nearest_float (len + 5) - (len + 5)\<bar> \<le> (len + 5) / 2 ^ 24"
  using round10_floor [of len] sum_floor_bounds [of len] sum_error [of len] by simp

theorem round10_nearest_witness:
  "to_float 14 = Inr 14 \<and> (0::real) \<le> 14 \<and> (14::real) \<le> 16777200
   \<and> round10 (Number 14) = Inr 10 \<and> round10 (Number 15) = Inr 20
   \<and> to_float (10485759 / 2097152) = Inr (10485759 / 2097152)
   \<and> (10485759 / 2097152 :: real) < 5
   \<and> round10 (Number (10485759 / 2097152)) = Inr 10"
proof -
  have f: "to_float 14 = Inr 14" "to_float 15 = Inr 15"
    by (rule to_float_numeral, simp)+
  have n: "nearest_float 19 = 19" "nearest_float 20 = 20"
    by (rule nearest_float_numeral, simp)+
  show ?thesis
    using round10_nearest [OF f(1)] round10_nearest [OF f(2)]
      round10_nearest [OF to_float_below_5] f to_float_below_5
    by (simp add: n nearest_float_tie)
qed

subsection \<open>The loop test\<close>

lemma with_float_nearest:
  assumes "\<bar>x\<bar> \<le> FLT_MAX"
  shows "with_float (nearest_float x) k = with_float x k"
proof -
  have "\<bar>nearest_float x\<bar> \<le> FLT_MAX"
    using assms nearest_float_FLT_MAX by (rule nearest_float_abs_le)
  then show ?thesis using assms by (simp add: with_float_eq nearest_float_idem)
qed

lemma distance_narrowed:
  assumes "\<bar>a\<bar> \<le> FLT_MAX" and "\<bar>b\<bar> \<le> FLT_MAX" and "\<bar>c\<bar> \<le> FLT_MAX" and "\<bar>d\<bar> \<le> FLT_MAX"
  shows "computeDistanceBetweenWaypoints (nearest_float a) (nearest_float b)
           (nearest_float c) (nearest_float d)
         = computeDistanceBetweenWaypoints a b c d"
  unfolding computeDistanceBetweenWaypoints_def
  by (simp only: with_float_nearest [OF assms(1)] with_float_nearest [OF assms(2)]
        with_float_nearest [OF assms(3)] with_float_nearest [OF assms(4)])

lemma small_coordinate:
  assumes "\<bar>x\<bar> \<le> 2 ^ 126"
  shows "\<bar>x\<bar> \<le> FLT_MAX" and "\<bar>nearest_float x\<bar> \<le> 2 ^ 126"
proof -
  show "\<bar>x\<bar> \<le> FLT_MAX" using assms by (simp add: FLT_MAX_def)
  show "\<bar>nearest_float x\<bar> \<le> 2 ^ 126"
    using assms nearest_float_2_126 by (rule nearest_float_abs_le)
qed

lemma small_difference:
  assumes "\<bar>x\<bar> \<le> 2 ^ 126" and "\<bar>y\<bar> \<le> 2 ^ 126"
  shows "\<bar>y - x\<bar> \<le> FLT_MAX"
proof -
  have "\<bar>y - x\<bar> \<le> 2 ^ 126 + 2 ^ 126" using assms by linarith
  then show ?thesis by (simp add: FLT_MAX_def)
qed

lemma distance_in_range:
  assumes "0 \<le> h" and "h \<le> 1"
  shows "\<bar>6371000 * (2 * atan2 (sqrt h) (sqrt (1 - h)))\<bar> \<le> FLT_MAX"
    and "0 \<le> 6371000 * (2 * atan2 (sqrt h) (sqrt (1 - h)))"
proof -
  have b: "0 \<le> atan2 (sqrt h) (sqrt (1 - h)) \<and> atan2 (sqrt h) (sqrt (1 - h)) \<le> pi / 2"
    using assms by (intro atan2_bounds) simp_all
  then show n: "0 \<le> 6371000 * (2 * atan2 (sqrt h) (sqrt (1 - h)))" by simp
  have "6371000 * (2 * atan2 (sqrt h) (sqrt (1 - h))) \<le> 6371000 * pi" using b by simp
  also have "\<dots> \<le> 6371000 * 4" using pi_less_4 by simp
  also have "\<dots> \<le> FLT_MAX" by (simp add: FLT_MAX_def)
  finally show "\<bar>6371000 * (2 * atan2 (sqrt h) (sqrt (1 - h)))\<bar> \<le> FLT_MAX" using n by simp
qed

lemma distance_total:
  assumes "\<bar>a\<bar> \<le> 2 ^ 126" and "\<bar>b\<bar> \<le> 2 ^ 126" and "\<bar>c\<bar> \<le> 2 ^ 126" and "\<bar>d\<bar> \<le> 2 ^ 126"
  shows "computeDistanceBetweenWaypoints a b c d = Inr NaN
         \<or> (\<exists>x. computeDistanceBetweenWaypoints a b c d = Inr (Number x) \<and> 0 \<le> x)"
proof -
  define h where "h = sin (nearest_float (nearest_float c - nearest_float a) * pi / 180 / 2)
      * sin (nearest_float (nearest_float c - nearest_float a) * pi / 180 / 2)
    + cos (nearest_float a * pi / 180) * cos (nearest_float c * pi / 180)
      * sin (nearest_float (nearest_float d - nearest_float b) * pi / 180 / 2)
      * sin (nearest_float (nearest_float d - nearest_float b) * pi / 180 / 2)"
  have e: "computeDistanceBetweenWaypoints a b c d =
      (if h < 0 \<or> 1 < h then Inr NaN
       else with_float (6371000 * (2 * atan2 (sqrt h) (sqrt (1 - h))))
              (\<lambda>distance. Inr (Number distance)))"
    unfolding computeDistanceBetweenWaypoints_def h_def HALF_CIRCLE_DEGREES_def Let_def
    by (simp only: with_float_eq [OF small_coordinate(1) [OF assms(1)]]
          with_float_eq [OF small_coordinate(1) [OF assms(2)]]
          with_float_eq [OF small_coordinate(1) [OF assms(3)]]
          with_float_eq [OF small_coordinate(1) [OF assms(4)]]
          with_float_eq [OF small_difference [OF small_coordinate(2) [OF assms(1)]
            small_coordinate(2) [OF assms(3)]]]
          with_float_eq [OF small_difference [OF small_coordinate(2) [OF assms(2)]
            small_coordinate(2) [OF assms(4)]]])
  show ?thesis
  proof (cases "h < 0 \<or> 1 < h")
    case True
    then show ?thesis using e by simp
  next
    case False
    then have h: "0 \<le> h" "h \<le> 1" by simp_all
    have "computeDistanceBetweenWaypoints a b c d
            = with_float (6371000 * (2 * atan2 (sqrt h) (sqrt (1 - h))))
                (\<lambda>distance. Inr (Number distance))"
      using False e by (simp only: if_False)
    also have "\<dots> = Inr (Number (nearest_float (6371000 * (2 * atan2 (sqrt h) (sqrt (1 - h))))))"
      by (rule with_float_eq [OF distance_in_range(1) [OF h]])
    finally have "computeDistanceBetweenWaypoints a b c d
            = Inr (Number (nearest_float (6371000 * (2 * atan2 (sqrt h) (sqrt (1 - h))))))" .
    moreover have "0 \<le> nearest_float (6371000 * (2 * atan2 (sqrt h) (sqrt (1 - h))))"
      using distance_in_range(2) [OF h] by (rule nearest_float_nonneg)
    ultimately show ?thesis by blast
  qed
qed

lemma distance_same_point:
  assumes "\<bar>a\<bar> \<le> FLT_MAX" and "\<bar>b\<bar> \<le> FLT_MAX"
  shows "computeDistanceBetweenWaypoints a b a b = Inr (Number 0)"
  unfolding computeDistanceBetweenWaypoints_def
  by (simp add: with_float_eq [OF assms(1)] with_float_eq [OF assms(2)] with_float_0 atan2_def)

lemma endpoints_loop_append:
  "endpoints_loop (xs @ ys) st =
     (case endpoints_loop xs st of Inl f \<Rightarrow> Inl f | Inr st' \<Rightarrow> endpoints_loop ys st')"
  by (induction xs st rule: endpoints_loop.induct)
    (simp_all add: with_float_def split: sum.splits)

lemma word_of_nat_32_eq_0: "n < 2 ^ 32 \<Longrightarrow> (word_of_nat n :: 32 word) = 0 \<longleftrightarrow> n = 0"
  by (simp add: word_of_nat_eq_0_iff) (meson dvd_imp_le linorder_not_less not_gr_zero dvd_0_right)

lemma float_coordinates_append:
  "float_coordinates (xs @ ys) \<longleftrightarrow> float_coordinates xs \<and> float_coordinates ys"
  by (simp add: float_coordinates_def)

lemma endpoints_loop_init:
  "length ws < 2 ^ 32 \<Longrightarrow> float_coordinates ws \<Longrightarrow>
   endpoints_loop ws (0, 0, 0, 0, 0) =
     Inr (word_of_nat (length ws),
      (if ws = [] then 0 else nearest_float (wpt_latitude (hd ws))),
      (if ws = [] then 0 else nearest_float (wpt_longitude (hd ws))),
      (if length ws \<le> 1 then 0 else nearest_float (wpt_latitude (last ws))),
      (if length ws \<le> 1 then 0 else nearest_float (wpt_longitude (last ws))))"
proof (induction ws rule: rev_induct)
  case Nil
  then show ?case by simp
next
  case (snoc w ws)
  then have l: "length ws < 2 ^ 32" and c: "float_coordinates ws"
    and w: "\<bar>wpt_latitude w\<bar> \<le> FLT_MAX" "\<bar>wpt_longitude w\<bar> \<le> FLT_MAX"
    by (simp_all add: float_coordinates_def small_coordinate(1))
  have step: "endpoints_loop [w] (n, fa, fo, la, lo) =
      Inr (if n = 0
           then (n + 1, nearest_float (wpt_latitude w), nearest_float (wpt_longitude w), la, lo)
           else (n + 1, fa, fo, nearest_float (wpt_latitude w), nearest_float (wpt_longitude w)))"
    for n fa fo la lo
    by (simp add: with_float_eq [OF w(1)] with_float_eq [OF w(2)])
  show ?case
    unfolding endpoints_loop_append snoc.IH [OF l c]
    using word_of_nat_32_eq_0 [OF l]
    by (cases ws) (simp_all add: step del: endpoints_loop.simps)
qed

lemma segments_endpoints_loop_concat:
  "segments_endpoints_loop ss st = endpoints_loop (concat (map seg_waypoints ss)) st"
  by (induction ss arbitrary: st) (simp_all add: endpoints_loop_append split: sum.splits)

lemma distance_same_float:
  assumes "\<bar>a\<bar> \<le> FLT_MAX" and "\<bar>b\<bar> \<le> FLT_MAX" and "\<bar>c\<bar> \<le> FLT_MAX" and "\<bar>d\<bar> \<le> FLT_MAX"
    and "nearest_float a = nearest_float c" and "nearest_float b = nearest_float d"
  shows "computeDistanceBetweenWaypoints a b c d = Inr (Number 0)"
  unfolding computeDistanceBetweenWaypoints_def
  by (simp add: with_float_eq [OF assms(1)] with_float_eq [OF assms(2)]
        with_float_eq [OF assms(3)] with_float_eq [OF assms(4)] assms(5,6) with_float_0
        atan2_def)

lemma distance_contract_haversine: "distance_contract computeDistanceBetweenWaypoints"
  unfolding distance_contract_def
proof (intro allI impI)
  fix a b c d :: real
  assume "\<bar>a\<bar> \<le> 2 ^ 126 \<and> \<bar>b\<bar> \<le> 2 ^ 126 \<and> \<bar>c\<bar> \<le> 2 ^ 126 \<and> \<bar>d\<bar> \<le> 2 ^ 126"
  then have s: "\<bar>a\<bar> \<le> 2 ^ 126" "\<bar>b\<bar> \<le> 2 ^ 126" "\<bar>c\<bar> \<le> 2 ^ 126" "\<bar>d\<bar> \<le> 2 ^ 126"
    by simp_all
  then have f: "\<bar>a\<bar> \<le> FLT_MAX" "\<bar>b\<bar> \<le> FLT_MAX" "\<bar>c\<bar> \<le> FLT_MAX" "\<bar>d\<bar> \<le> FLT_MAX"
    by (simp_all add: small_coordinate(1))
  have 1: "computeDistanceBetweenWaypoints a b c d = Inr NaN
        \<or> (\<exists>x. computeDistanceBetweenWaypoints a b c d = Inr (Number x) \<and> 0 \<le> x)"
    using s by (rule distance_total)
  have 2: "computeDistanceBetweenWaypoints (nearest_float a) (nearest_float b)
             (nearest_float c) (nearest_float d)
           = computeDistanceBetweenWaypoints a b c d"
    using f by (rule distance_narrowed)
  have 3: "computeDistanceBetweenWaypoints a b c d = Inr (Number 0)"
    if "nearest_float a = nearest_float c \<and> nearest_float b = nearest_float d"
    using distance_same_float [OF f] that by simp
  show "(computeDistanceBetweenWaypoints a b c d = Inr NaN
          \<or> (\<exists>x. computeDistanceBetweenWaypoints a b c d = Inr (Number x) \<and> 0 \<le> x))
        \<and> computeDistanceBetweenWaypoints (nearest_float a) (nearest_float b)
             (nearest_float c) (nearest_float d)
           = computeDistanceBetweenWaypoints a b c d
        \<and> (nearest_float a = nearest_float c \<and> nearest_float b = nearest_float d \<longrightarrow>
             computeDistanceBetweenWaypoints a b c d = Inr (Number 0))"
    using 1 2 3 by blast
qed

lemma sint_ge_4:
  "n < 2 ^ 31 \<Longrightarrow> sint MIN_LOOP_WPTS \<le> sint (word_of_nat n :: 32 word) \<longleftrightarrow> 4 \<le> n"
  by (simp add: sint_word_of_nat_32 MIN_LOOP_WPTS_def)

lemma float_coordinates_member:
  assumes "float_coordinates ws" and "w \<in> set ws"
  shows "\<bar>wpt_latitude w\<bar> \<le> 2 ^ 126" and "\<bar>wpt_longitude w\<bar> \<le> 2 ^ 126"
  using assms by (auto simp: float_coordinates_def list_all_iff)

lemma contract_total:
  assumes "distance_contract distance_fn"
    and "\<bar>a\<bar> \<le> 2 ^ 126" and "\<bar>b\<bar> \<le> 2 ^ 126" and "\<bar>c\<bar> \<le> 2 ^ 126" and "\<bar>d\<bar> \<le> 2 ^ 126"
  shows "distance_fn a b c d = Inr NaN \<or> (\<exists>x. distance_fn a b c d = Inr (Number x) \<and> 0 \<le> x)"
  using assms unfolding distance_contract_def by blast

lemma contract_narrowed:
  assumes "distance_contract distance_fn"
    and "\<bar>a\<bar> \<le> 2 ^ 126" and "\<bar>b\<bar> \<le> 2 ^ 126" and "\<bar>c\<bar> \<le> 2 ^ 126" and "\<bar>d\<bar> \<le> 2 ^ 126"
  shows "distance_fn (nearest_float a) (nearest_float b) (nearest_float c) (nearest_float d)
         = distance_fn a b c d"
  using assms unfolding distance_contract_def by blast

lemma contract_same:
  assumes "distance_contract distance_fn"
    and "\<bar>a\<bar> \<le> 2 ^ 126" and "\<bar>b\<bar> \<le> 2 ^ 126" and "\<bar>c\<bar> \<le> 2 ^ 126" and "\<bar>d\<bar> \<le> 2 ^ 126"
    and "nearest_float a = nearest_float c" and "nearest_float b = nearest_float d"
  shows "distance_fn a b c d = Inr (Number 0)"
  using assms unfolding distance_contract_def by blast

lemma endpoint_distance_total:
  assumes "distance_contract distance_fn" and "float_coordinates ws"
  shows "endpoint_distance distance_fn ws = Inr NaN
         \<or> (\<exists>x. endpoint_distance distance_fn ws = Inr (Number x) \<and> 0 \<le> x)"
proof (cases ws)
  case Nil
  then show ?thesis by (simp add: endpoint_distance_def)
next
  case (Cons first rest)
  then have m: "first \<in> set ws" "last ws \<in> set ws" by simp_all
  show ?thesis
    using contract_total [OF assms(1) float_coordinates_member [OF assms(2) m(1)]
        float_coordinates_member [OF assms(2) m(2)]]
    by (simp add: endpoint_distance_def Cons)
qed

lemma float_le_nonneg:
  assumes "d = NaN \<or> (\<exists>x. d = Number x \<and> 0 \<le> x)" and "delta < 0"
  shows "\<not> float_le d delta"
  using assms by (auto simp: float_le_def)

lemma loop_test_iff:
  assumes "distance_contract distance_fn" and "length ws < 2 ^ 31" and "float_coordinates ws"
  shows "\<exists>d. endpoint_distance distance_fn ws = Inr d
           \<and> (if delta < 0 then Inr False
               else (case endpoints_loop ws (0, 0, 0, 0, 0) of
                       Inl f \<Rightarrow> Inl f
                     | Inr st \<Rightarrow> loop_test distance_fn st delta))
              = Inr (4 \<le> length ws \<and> float_le d delta)"
proof -
  have l: "length ws < 2 ^ 32" using assms(2) by simp
  obtain d where d: "endpoint_distance distance_fn ws = Inr d"
    and dn: "d = NaN \<or> (\<exists>x. d = Number x \<and> 0 \<le> x)"
    using endpoint_distance_total [OF assms(1,3)] by auto
  have "(if delta < 0 then Inr False
         else (case endpoints_loop ws (0, 0, 0, 0, 0) of
                 Inl f \<Rightarrow> Inl f
               | Inr st \<Rightarrow> loop_test distance_fn st delta))
        = Inr (4 \<le> length ws \<and> float_le d delta)"
  proof (cases "4 \<le> length ws")
    case False
    then show ?thesis
      unfolding endpoints_loop_init [OF l assms(3)] loop_test_def
      using sint_ge_4 [OF assms(2)] by simp
  next
    case True
    then obtain first rest where ws: "ws = first # rest" by (cases ws) auto
    then have m: "first \<in> set ws" "last ws \<in> set ws" by simp_all
    have "endpoint_distance distance_fn ws
            = distance_fn (wpt_latitude first) (wpt_longitude first)
                (wpt_latitude (last ws)) (wpt_longitude (last ws))"
      by (simp add: endpoint_distance_def ws del: last.simps)
    then have c: "distance_fn (nearest_float (wpt_latitude first))
               (nearest_float (wpt_longitude first)) (nearest_float (wpt_latitude (last ws)))
               (nearest_float (wpt_longitude (last ws))) = Inr d"
      using d contract_narrowed [OF assms(1) float_coordinates_member [OF assms(3) m(1)]
          float_coordinates_member [OF assms(3) m(2)]]
      by simp
    have h: "hd ws = first" "ws \<noteq> []" "\<not> length ws \<le> 1" using ws True by auto
    show ?thesis
      unfolding endpoints_loop_init [OF l assms(3)] loop_test_def
      using sint_ge_4 [OF assms(2)] True c float_le_nonneg [OF dn, of delta]
      by (simp add: h)
  qed
  with d show ?thesis by blast
qed

lemma isLoopRoute_iff:
  assumes "distance_contract distance_fn"
    and "length (rte_waypoints r) < 2 ^ 31" and "float_coordinates (rte_waypoints r)"
    and "to_float delta = Inr fdelta"
  shows "\<exists>d. endpoint_distance distance_fn (rte_waypoints r) = Inr d
           \<and> isLoopRoute distance_fn (Some r) delta
               = Inr (4 \<le> length (rte_waypoints r) \<and> float_le d fdelta)"
proof -
  obtain d where d: "endpoint_distance distance_fn (rte_waypoints r) = Inr d"
    and l: "(if fdelta < 0 then Inr False
             else (case endpoints_loop (rte_waypoints r) (0, 0, 0, 0, 0) of
                     Inl f \<Rightarrow> Inl f
                   | Inr st \<Rightarrow> loop_test distance_fn st fdelta))
            = Inr (4 \<le> length (rte_waypoints r) \<and> float_le d fdelta)"
    using loop_test_iff [OF assms(1,2,3), of fdelta] by blast
  have "isLoopRoute distance_fn (Some r) delta
          = Inr (4 \<le> length (rte_waypoints r) \<and> float_le d fdelta)"
    unfolding l [symmetric] by (simp add: isLoopRoute_def with_float_def assms(4))
  with d show ?thesis by blast
qed

lemma isLoopTrack_iff:
  assumes "distance_contract distance_fn"
    and "length (track_waypoints t) < 2 ^ 31" and "float_coordinates (track_waypoints t)"
    and "to_float delta = Inr fdelta"
  shows "\<exists>d. endpoint_distance distance_fn (track_waypoints t) = Inr d
           \<and> isLoopTrack distance_fn (Some t) delta
               = Inr (4 \<le> length (track_waypoints t) \<and> float_le d fdelta)"
proof -
  have e: "segments_endpoints_loop (trk_segments t) st = endpoints_loop (track_waypoints t) st"
    for st
    by (simp add: segments_endpoints_loop_concat track_waypoints_def)
  obtain d where d: "endpoint_distance distance_fn (track_waypoints t) = Inr d"
    and l: "(if fdelta < 0 then Inr False
             else (case endpoints_loop (track_waypoints t) (0, 0, 0, 0, 0) of
                     Inl f \<Rightarrow> Inl f
                   | Inr st \<Rightarrow> loop_test distance_fn st fdelta))
            = Inr (4 \<le> length (track_waypoints t) \<and> float_le d fdelta)"
    using loop_test_iff [OF assms(1,2,3), of fdelta] by blast
  have "isLoopTrack distance_fn (Some t) delta
          = Inr (4 \<le> length (track_waypoints t) \<and> float_le d fdelta)"
    unfolding l [symmetric] by (simp add: isLoopTrack_def with_float_def assms(4) e)
  with d show ?thesis by blast
qed

lemma endpoint_distance_closed:
  assumes "distance_contract distance_fn" and "ws \<noteq> []" and "float_coordinates ws"
    and "wpt_latitude (hd ws) = wpt_latitude (last ws)"
    and "wpt_longitude (hd ws) = wpt_longitude (last ws)"
  shows "endpoint_distance distance_fn ws = Inr (Number 0)"
proof -
  obtain first rest where ws: "ws = first # rest" using assms(2) by (cases ws) auto
  then have m: "last ws \<in> set ws" by simp
  have "distance_fn (wpt_latitude (last ws)) (wpt_longitude (last ws))
          (wpt_latitude (last ws)) (wpt_longitude (last ws)) = Inr (Number 0)"
    using contract_same [OF assms(1) float_coordinates_member [OF assms(3) m]
        float_coordinates_member [OF assms(3) m]]
    by simp
  then show ?thesis
    using assms(4,5) by (simp add: endpoint_distance_def ws del: last.simps)
qed

lemma to_float_nonneg: "to_float x = Inr y \<Longrightarrow> 0 \<le> x \<Longrightarrow> 0 \<le> y"
  by (auto simp: to_float_def nearest_float_nonneg split: if_splits)

lemma nearest_float_nearly_45: "nearest_float (4500000001 / 100000000) = 45"
proof -
  have e: "float_exponent (4500000001 / 100000000) = 5"
    by (rule float_exponent_eqI) simp_all
  show ?thesis
    by (simp add: nearest_float_def float_ulp_def e round_half_even_def)
qed

text \<open>
  C4. The waypoints of a route, or those of all the segments of a track in order, are a
  loop exactly when there are at least 4 of them and the distance between the first and
  the last is at most \<open>delta\<close>. The distance is the one that the distance function
  returns for the two waypoints: \<^verbatim>\<open>computeDistanceBetweenWaypoints\<close> meets the contract,
  and the rest holds for every distance function that does; \<open>fdelta\<close> is \<open>delta\<close> as the
  \<^verbatim>\<open>float\<close> that the parameter holds. So 3 waypoints are never a loop, and 4 waypoints
  whose first and last coordinates are equal are a loop for every \<open>delta\<close> from 0 up. (The
  counter of the code is an \<^verbatim>\<open>int\<close>: the sequences have fewer than \<open>2^31\<close> waypoints. The
  coordinates are at most \<open>2^126\<close> in absolute value, and \<open>delta\<close> is in the range of a
  \<^verbatim>\<open>float\<close>.)
\<close>

theorem isLoop_iff:
  assumes "distance_contract distance_fn"
  shows
  "distance_contract computeDistanceBetweenWaypoints
   \<and> (length (rte_waypoints r) < 2 ^ 31 \<and> float_coordinates (rte_waypoints r)
      \<and> to_float delta = Inr fdelta \<longrightarrow>
      (\<exists>d. endpoint_distance distance_fn (rte_waypoints r) = Inr d
         \<and> isLoopRoute distance_fn (Some r) delta
             = Inr (4 \<le> length (rte_waypoints r) \<and> float_le d fdelta)))
   \<and> (length (track_waypoints t) < 2 ^ 31 \<and> float_coordinates (track_waypoints t)
      \<and> to_float delta = Inr fdelta \<longrightarrow>
      (\<exists>d. endpoint_distance distance_fn (track_waypoints t) = Inr d
         \<and> isLoopTrack distance_fn (Some t) delta
             = Inr (4 \<le> length (track_waypoints t) \<and> float_le d fdelta)))
   \<and> (length (rte_waypoints r) = 3 \<and> float_coordinates (rte_waypoints r)
      \<and> to_float delta = Inr fdelta \<longrightarrow> isLoopRoute distance_fn (Some r) delta = Inr False)
   \<and> (length (track_waypoints t) = 3 \<and> float_coordinates (track_waypoints t)
      \<and> to_float delta = Inr fdelta \<longrightarrow> isLoopTrack distance_fn (Some t) delta = Inr False)
   \<and> (length (rte_waypoints r) = 4 \<and> float_coordinates (rte_waypoints r)
        \<and> wpt_latitude (hd (rte_waypoints r)) = wpt_latitude (last (rte_waypoints r))
        \<and> wpt_longitude (hd (rte_waypoints r)) = wpt_longitude (last (rte_waypoints r))
        \<and> to_float delta = Inr fdelta \<and> 0 \<le> delta \<longrightarrow>
      isLoopRoute distance_fn (Some r) delta = Inr True)
   \<and> (length (track_waypoints t) = 4 \<and> float_coordinates (track_waypoints t)
        \<and> wpt_latitude (hd (track_waypoints t)) = wpt_latitude (last (track_waypoints t))
        \<and> wpt_longitude (hd (track_waypoints t)) = wpt_longitude (last (track_waypoints t))
        \<and> to_float delta = Inr fdelta \<and> 0 \<le> delta \<longrightarrow>
      isLoopTrack distance_fn (Some t) delta = Inr True)"
proof -
  have r3: "isLoopRoute distance_fn (Some r) delta = Inr False"
    if "length (rte_waypoints r) = 3" and "float_coordinates (rte_waypoints r)"
      and "to_float delta = Inr fdelta"
    using isLoopRoute_iff [OF assms _ that(2,3)] that(1) by auto
  have t3: "isLoopTrack distance_fn (Some t) delta = Inr False"
    if "length (track_waypoints t) = 3" and "float_coordinates (track_waypoints t)"
      and "to_float delta = Inr fdelta"
    using isLoopTrack_iff [OF assms _ that(2,3)] that(1) by auto
  have r4: "isLoopRoute distance_fn (Some r) delta = Inr True"
    if "length (rte_waypoints r) = 4" and "float_coordinates (rte_waypoints r)"
      and "wpt_latitude (hd (rte_waypoints r)) = wpt_latitude (last (rte_waypoints r))"
      and "wpt_longitude (hd (rte_waypoints r)) = wpt_longitude (last (rte_waypoints r))"
      and "to_float delta = Inr fdelta" and "0 \<le> delta"
  proof -
    have "rte_waypoints r \<noteq> []" using that(1) by auto
    then have "endpoint_distance distance_fn (rte_waypoints r) = Inr (Number 0)"
      using that(2,3,4) by (intro endpoint_distance_closed [OF assms])
    moreover have "0 \<le> fdelta" using that(5,6) by (rule to_float_nonneg)
    ultimately show ?thesis
      using isLoopRoute_iff [OF assms _ that(2,5)] that(1) by (auto simp: float_le_def)
  qed
  have t4: "isLoopTrack distance_fn (Some t) delta = Inr True"
    if "length (track_waypoints t) = 4" and "float_coordinates (track_waypoints t)"
      and "wpt_latitude (hd (track_waypoints t)) = wpt_latitude (last (track_waypoints t))"
      and "wpt_longitude (hd (track_waypoints t)) = wpt_longitude (last (track_waypoints t))"
      and "to_float delta = Inr fdelta" and "0 \<le> delta"
  proof -
    have "track_waypoints t \<noteq> []" using that(1) by auto
    then have "endpoint_distance distance_fn (track_waypoints t) = Inr (Number 0)"
      using that(2,3,4) by (intro endpoint_distance_closed [OF assms])
    moreover have "0 \<le> fdelta" using that(5,6) by (rule to_float_nonneg)
    ultimately show ?thesis
      using isLoopTrack_iff [OF assms _ that(2,5)] that(1) by (auto simp: float_le_def)
  qed
  show ?thesis
    using distance_contract_haversine isLoopRoute_iff [OF assms, of r delta fdelta]
      isLoopTrack_iff [OF assms, of t delta fdelta] r3 t3 r4 t4
    by blast
qed

theorem isLoop_iff_witness:
  "distance_contract computeDistanceBetweenWaypoints
   \<and> length (rte_waypoints square_route) = 4 \<and> float_coordinates (rte_waypoints square_route)
   \<and> length (track_waypoints square_track) = 4
   \<and> float_coordinates (track_waypoints square_track)
   \<and> to_float 0 = Inr 0
   \<and> isLoopRoute computeDistanceBetweenWaypoints (Some square_route) 0 = Inr True
   \<and> isLoopTrack computeDistanceBetweenWaypoints (Some square_track) 0 = Inr True
   \<and> length (rte_waypoints corner_route) = 3 \<and> float_coordinates (rte_waypoints corner_route)
   \<and> length (track_waypoints corner_track) = 3
   \<and> float_coordinates (track_waypoints corner_track)
   \<and> to_float 1000000 = Inr 1000000
   \<and> isLoopRoute computeDistanceBetweenWaypoints (Some corner_route) 1000000 = Inr False
   \<and> isLoopTrack computeDistanceBetweenWaypoints (Some corner_track) 1000000 = Inr False
   \<and> length (rte_waypoints nearly_closed_route) = 4
   \<and> float_coordinates (rte_waypoints nearly_closed_route)
   \<and> wpt_latitude (hd (rte_waypoints nearly_closed_route))
       \<noteq> wpt_latitude (last (rte_waypoints nearly_closed_route))
   \<and> endpoint_distance computeDistanceBetweenWaypoints (rte_waypoints nearly_closed_route)
       = Inr (Number 0)
   \<and> isLoopRoute computeDistanceBetweenWaypoints (Some nearly_closed_route) 0 = Inr True"
proof -
  note c = distance_contract_haversine
  have sr: "length (rte_waypoints square_route) = 4"
    "float_coordinates (rte_waypoints square_route)"
    "wpt_latitude (hd (rte_waypoints square_route))
       = wpt_latitude (last (rte_waypoints square_route))"
    "wpt_longitude (hd (rte_waypoints square_route))
       = wpt_longitude (last (rte_waypoints square_route))"
    by (simp_all add: square_route_def point_def float_coordinates_def)
  have st: "length (track_waypoints square_track) = 4"
    "float_coordinates (track_waypoints square_track)"
    "wpt_latitude (hd (track_waypoints square_track))
       = wpt_latitude (last (track_waypoints square_track))"
    "wpt_longitude (hd (track_waypoints square_track))
       = wpt_longitude (last (track_waypoints square_track))"
    by (simp_all add: square_track_def track_waypoints_def point_def float_coordinates_def)
  have cr: "length (rte_waypoints corner_route) = 3"
    "float_coordinates (rte_waypoints corner_route)"
    by (simp_all add: corner_route_def point_def float_coordinates_def)
  have ct: "length (track_waypoints corner_track) = 3"
    "float_coordinates (track_waypoints corner_track)"
    by (simp_all add: corner_track_def track_waypoints_def point_def float_coordinates_def)
  have f0: "to_float 0 = Inr 0" by (rule to_float_0)
  have fm: "to_float 1000000 = Inr 1000000" by (rule to_float_numeral) simp
  have nr: "length (rte_waypoints nearly_closed_route) = 4"
    "length (rte_waypoints nearly_closed_route) < 2 ^ 31"
    "float_coordinates (rte_waypoints nearly_closed_route)"
    "wpt_latitude (hd (rte_waypoints nearly_closed_route))
       \<noteq> wpt_latitude (last (rte_waypoints nearly_closed_route))"
    by (simp_all add: nearly_closed_route_def point_def float_coordinates_def)
  have "computeDistanceBetweenWaypoints (4500000001 / 100000000) 0 45 0 = Inr (Number 0)"
  proof (rule distance_same_float)
    show "nearest_float (4500000001 / 100000000) = nearest_float 45"
      using nearest_float_numeral [of "num.Bit1 (num.Bit0 (num.Bit1 (num.Bit1 (num.Bit0 num.One))))"]
      by (simp add: nearest_float_nearly_45)
  qed (simp_all add: FLT_MAX_def)
  then have nd: "endpoint_distance computeDistanceBetweenWaypoints
                   (rte_waypoints nearly_closed_route) = Inr (Number 0)"
    by (simp add: endpoint_distance_def nearly_closed_route_def point_def)
  have le: "float_le (Number 0) 0" by (simp add: float_le_def)
  show ?thesis
    using isLoop_iff [OF c, of square_route 0 0 square_track]
      isLoop_iff [OF c, of corner_route 1000000 1000000 corner_track]
      isLoop_iff [OF c, of nearly_closed_route 0 0 square_track]
      c sr st cr ct f0 fm nr nd le
    by auto
qed

subsection \<open>Routes between two places\<close>

lemma distance_equator_pole:
  "computeDistanceBetweenWaypoints 0 0 90 0 = Inr (Number (nearest_float (6371000 * (pi / 2))))"
proof -
  have a: "sin (pi / 4) * sin (pi / 4) = 1 / (2::real)"
    by (simp add: sin_45)
  have c: "\<bar>sin (pi / 4)\<bar> = sqrt (1 / 2)"
    using a by (metis real_sqrt_abs2)
  have b: "atan2 (sqrt (1 / 2)) (sqrt (1 / 2)) = pi / 4"
    by (simp add: atan2_def arctan_one)
  have r: "\<bar>6371000 * (pi / 2)\<bar> \<le> FLT_MAX"
    using pi_less_4 pi_gt_zero by (simp add: FLT_MAX_def)
  have "computeDistanceBetweenWaypoints 0 0 90 0
          = with_float (6371000 * (pi / 2)) (\<lambda>distance. Inr (Number distance))"
    by (simp add: computeDistanceBetweenWaypoints_def HALF_CIRCLE_DEGREES_def with_float_0
          with_float_numeral a b c)
  also have "\<dots> = Inr (Number (nearest_float (6371000 * (pi / 2))))"
    using r by (rule with_float_eq)
  finally show ?thesis .
qed

lemma quarter_meridian_far: "10 < nearest_float (6371000 * (pi / 2))"
proof -
  have "(11::real) \<le> 6371000 * (pi / 2)" using pi_ge_two by simp
  then have "nearest_float 11 \<le> nearest_float (6371000 * (pi / 2))"
    by (rule nearest_float_mono)
  moreover have "nearest_float 11 = 11" by (rule nearest_float_numeral) simp
  ultimately show ?thesis by simp
qed

lemma distance_origin: "computeDistanceBetweenWaypoints 0 0 0 0 = Inr (Number 0)"
  by (rule distance_same_point) (simp_all add: FLT_MAX_def)

lemma distance_0_1: "computeDistanceBetweenWaypoints 0 1 0 1 = Inr (Number 0)"
  by (rule distance_same_point) (simp_all add: FLT_MAX_def)

text \<open>
  C5 at a document with two routes. The query asks for the routes from \<open>(0, 0)\<close> to
  \<open>(0, 1)\<close> within 10 metres. The first route runs from \<open>(0, 0)\<close> to \<open>(0, 1)\<close>; the second
  one starts at the pole \<open>(90, 0)\<close>, a quarter of the globe away from \<open>(0, 0)\<close>, and ends at
  \<open>(0, 1)\<close>. The code returns both routes: for the second route it still compares the
  first point of the first route. For a document with one track from \<open>(0, 0)\<close> to \<open>(0, 1)\<close>
  in two segments, the second of them empty, \<^verbatim>\<open>getTracksBetween\<close> returns the track twice.
\<close>

theorem getRoutesBetween_stale_first_point:
  "getRoutesBetween (Some two_routes_doc) 0 0 0 1 10 = Inr (Some [equator_route, pole_route])
   \<and> rte_waypoints pole_route = [point 90 0, point 0 1]
   \<and> computeDistanceBetweenWaypoints 0 0 (wpt_latitude (point 90 0))
          (wpt_longitude (point 90 0))
       = Inr (Number (nearest_float (6371000 * (pi / 2))))
   \<and> \<not> float_le (Number (nearest_float (6371000 * (pi / 2)))) 10
   \<and> getTracksBetween (Some one_track_doc) 0 0 0 1 10
       = Inr (Some [two_segment_track, two_segment_track])"
proof -
  have far: "\<not> float_le (Number (nearest_float (6371000 * (pi / 2)))) 10"
    using quarter_meridian_far by (simp add: float_le_def)
  have r: "getRoutesBetween (Some two_routes_doc) 0 0 0 1 10
             = Inr (Some [equator_route, pole_route])"
    by (simp add: getRoutesBetween_def two_routes_doc_def equator_route_def pole_route_def
          point_def insertBack_def with_float_0 with_float_1 with_float_numeral
          distance_origin distance_0_1 float_le_def)
  have t: "getTracksBetween (Some one_track_doc) 0 0 0 1 10
             = Inr (Some [two_segment_track, two_segment_track])"
    by (simp add: getTracksBetween_def one_track_doc_def two_segment_track_def
          point_def insertBack_def with_float_0 with_float_1 with_float_numeral
          distance_origin distance_0_1 float_le_def)
  show ?thesis
    using far r t by (simp add: pole_route_def point_def distance_equator_pole)
qed

subsection \<open>Lists in the JSON projection\<close>

lemma show_nat_digit: "n < 10 \<Longrightarrow> show_nat n = [digit_of n]"
  by (simp add: show_nat.simps)

lemma pad_digits_numeral:
  "pad_digits (numeral k) n = pad_digits (pred_numeral k) (n div 10) @ [digit_of (n mod 10)]"
  by (metis numeral_eq_Suc pad_digits.simps(2))

lemma with_float_half: "with_float (1 / 2) k = k (1 / 2)"
proof -
  have n: "nearest_float (1 / 2) = 1 / 2"
    by (rule nearest_float_grid [of "1 / 2" 1 "- 1"]) simp_all
  have "with_float (1 / 2) k = k (nearest_float (1 / 2))"
    by (rule with_float_eq) (simp add: FLT_MAX_def)
  then show ?thesis by (simp only: n)
qed

lemma round10_0: "round10 (Number 0) = Inr 0"
  by (simp add: round10_def with_float_0 with_float_numeral with_float_half float_to_int_def
        to_float_0)

lemma printf_f_1_0: "printf_f (Suc 0) 0 = ''0.0''"
  by (simp add: printf_f_def round_half_even_def show_nat_digit digit_of_def)

lemma trackToJSON_morning_ride:
  \<open>trackToJSON (Some morning_ride) = Inr ''{"name":"Morning ride","len":0.0,"loop":false}''\<close>
  by (simp add: trackToJSON_def morning_ride_def getTrackLen_def isLoopTrack_def
        loop_test_def MIN_LOOP_WPTS_def DEFAULT_DELTA_def with_float_numeral round10_0
        printf_f_1_0)

lemma trackToJSON_unnamed_track:
  \<open>trackToJSON (Some unnamed_track) = Inr ''{"name":"None","len":0.0,"loop":false}''\<close>
  by (simp add: trackToJSON_def unnamed_track_def getTrackLen_def isLoopTrack_def
        loop_test_def MIN_LOOP_WPTS_def DEFAULT_DELTA_def with_float_numeral round10_0
        printf_f_1_0)

lemma routeToJSON_empty_route:
  \<open>n \<noteq> '''' \<Longrightarrow>
   routeToJSON (Some (empty_route n))
     = Inr (''{"name":"'' @ n @ ''","numPoints":0,"len":0.0,"loop":false}'')\<close>
  by (simp add: routeToJSON_def empty_route_def getRouteLen_def isLoopRoute_def
        loop_test_def MIN_LOOP_WPTS_def DEFAULT_DELTA_def with_float_numeral round10_0
        printf_f_1_0 getNumRouteWaypoints_def printf_d_def show_nat_digit digit_of_def)

text \<open>
  \<^verbatim>\<open>routeListToJSON\<close> renders a list of routes as the entries of its routes joined by
  commas, and both functions render the empty list as \<^verbatim>\<open>[]\<close>.
\<close>

lemma route_list_loop_joined:
  "map (\<lambda>r. routeToJSON (Some r)) rs = map Inr entries \<Longrightarrow> k + length rs = n \<Longrightarrow>
   n < 2 ^ 31 \<Longrightarrow>
   route_list_loop rs (word_of_nat n) (word_of_nat k) str = Inr (str @ comma_join entries)"
proof (induction rs arbitrary: entries k str)
  case Nil
  then show ?case by simp
next
  case (Cons r rs)
  from Cons.prems(1) obtain e es where es: "entries = e # es"
    and e: "routeToJSON (Some r) = Inr e"
    and m: "map (\<lambda>r. routeToJSON (Some r)) rs = map Inr es"
    by (cases entries) auto
  have k1: "Suc k + length rs = n" using Cons.prems(2) by simp
  have kn: "Suc k < 2 ^ 31" "0 < n" using Cons.prems(2,3) by simp_all
  have w: "(word_of_nat k :: 32 word) + 1 = word_of_nat (Suc k)" by simp
  have c: "sint (word_of_nat (Suc k) :: 32 word) < sint (word_of_nat n :: 32 word)
             \<longleftrightarrow> Suc k < n"
    by (simp only: sint_word_of_nat_32 [OF kn(1)] sint_word_of_nat_32 [OF Cons.prems(3)]
          of_nat_less_iff)
  have p: "0 < sint (word_of_nat n :: 32 word)"
    unfolding sint_word_of_nat_32 [OF Cons.prems(3)] using kn(2) by simp
  show ?case
  proof (cases rs)
    case Nil
    with m have "es = []" by simp
    moreover from Nil k1 have "\<not> Suc k < n" by simp
    ultimately show ?thesis
      using Nil by (simp only: route_list_loop.simps e w c p es, simp?)
  next
    case (Cons r' rs')
    with m obtain e' es' where es': "es = e' # es'" by (cases es) auto
    from Cons k1 have lt: "Suc k < n" by simp
    have "route_list_loop (r # rs) (word_of_nat n) (word_of_nat k) str
            = route_list_loop rs (word_of_nat n) (word_of_nat (Suc k)) (str @ e @ '','')"
      using lt by (simp only: route_list_loop.simps e w c p, simp?)
    also have "\<dots> = Inr ((str @ e @ '','') @ comma_join es)"
      using m k1 Cons.prems(3) by (rule Cons.IH)
    finally show ?thesis by (simp add: es es')
  qed
qed

lemma routeListToJSON_joined:
  assumes "map (\<lambda>r. routeToJSON (Some r)) l = map Inr entries" and "length l < 2 ^ 31"
  shows "routeListToJSON (Some l) = Inr (json_list entries)"
proof (cases l)
  case Nil
  with assms(1) show ?thesis
    by (simp add: routeListToJSON_def getLength_def json_list_def)
next
  case (Cons r rs)
  then have "length l \<noteq> 0" by simp
  then have nz: "getLength l \<noteq> 0"
    using assms(2) word_of_nat_32_eq_0 [of "length l"] by (simp add: getLength_def)
  have "route_list_loop l (word_of_nat (length l)) (word_of_nat 0) ''[''
          = Inr (''['' @ comma_join entries)"
    using assms by (intro route_list_loop_joined) simp_all
  then show ?thesis
    using nz by (simp add: routeListToJSON_def getLength_def json_list_def)
qed

lemma empty_list_json:
  "routeListToJSON None = Inr ''[]'' \<and> routeListToJSON (Some []) = Inr ''[]''
   \<and> trackListToJSON None = Inr ''[]'' \<and> trackListToJSON (Some []) = Inr ''[]''"
  by (simp add: routeListToJSON_def trackListToJSON_def getLength_def)

text \<open>
  C7 at a list of two tracks. Each track has the text
  \<^verbatim>\<open>{"name":"Morning ride","len":0.0,"loop":false}\<close>, and the list of the two is rendered
  as \<^verbatim>\<open>[e}e}]\<close>: the last two characters of each entry and no comma, not the two entries
  joined by a comma. With an unnamed track, whose text has 38 characters, the read starts
  beyond the text. \<^verbatim>\<open>routeListToJSON\<close> does join the entries of a list of two routes.
\<close>

theorem trackListToJSON_not_joined:
  \<open>trackListToJSON (Some [morning_ride, morning_ride]) = Inr ''[e}e}]''
   \<and> json_list [''{"name":"Morning ride","len":0.0,"loop":false}'',
                 ''{"name":"Morning ride","len":0.0,"loop":false}'']
       = ''[{"name":"Morning ride","len":0.0,"loop":false},{"name":"Morning ride","len":0.0,"loop":false}]''
   \<and> trackListToJSON (Some [unnamed_track]) = Inl OutOfBoundsRead
   \<and> routeListToJSON (Some [empty_route ''a'', empty_route ''b''])
       = Inr ''[{"name":"a","numPoints":0,"len":0.0,"loop":false},{"name":"b","numPoints":0,"len":0.0,"loop":false}]''\<close>
  by (simp add: trackListToJSON_def routeListToJSON_def getLength_def json_list_def
        trackToJSON_morning_ride trackToJSON_unnamed_track routeToJSON_empty_route)

subsection \<open>Building and writing back\<close>

lemmas tag_defs = GPX_def TRK_def TRKSEG_def TRKPT_def RTEPT_def WPT_def RTE_def VERSION_def
  CREATOR_def TEXT_def LAT_def LON_def NAME_def

lemmas strtod_defs = strtod_def isspace_def isdigit_def strip_sign_def is_negative_def
  digit_value_def strtod_exponent_def

lemmas build_defs = process_element_def scan_element_def scan_attributes_def build_element_def
  place_waypoint_def other_data_def name_scan_def deref_def buildGPXdoc_def buildWaypoint_def
  buildTrack_def buildRoute_def buildGPXData_def insertBack_def getFromBack_def
  update_back_def initial_locals_def add_trackpoint_def buildTrackSegment_def
  xmlNodeGetContent_def

lemmas convert_defs = ConvertGPXDocToXmlDoc_def ConvertWaypointToXml_def ConvertRouteToXml_def
  ConvertTrackToXml_def ConvertTrackSegmentToXml_def ConvertGPXDataToXml_def xmlNewChild_def
  text_node_def

lemma strtod_version: "strtod ''1.1'' = 11 / 10"
  by (simp add: strtod_defs)

lemma strtod_one: "strtod ''1.000000'' = 1"
  by (simp add: strtod_defs)

lemma strtod_two: "strtod ''2.000000'' = 2"
  by (simp add: strtod_defs)

lemma printf_version: "printf_f (Suc 0) (11 / 10) = ''1.1''"
  by (simp add: printf_f_def round_half_even_def show_nat_digit digit_of_def)

lemma printf_one: "printf_f 6 1 = ''1.000000''"
  by (simp add: printf_f_def round_half_even_def show_nat_digit digit_of_def
        pad_digits_numeral)

lemma printf_two: "printf_f 6 2 = ''2.000000''"
  by (simp add: printf_f_def round_half_even_def show_nat_digit digit_of_def
        pad_digits_numeral)

text \<open>
  C1 at a tree that the serializer itself produces. The document with the waypoint
  \<open>A\<close> at latitude 1 and longitude 2 is what the builder makes of an indented tree. It
  is written as the tree \<open>named_waypoint_tree\<close>: a \<^verbatim>\<open>gpx\<close> element with one \<^verbatim>\<open>wpt\<close> child
  whose only child is the \<^verbatim>\<open>name\<close> element. Built from this tree, the waypoint has no
  name, since the scan for the name starts at the second child; written again, the tree
  has lost the \<^verbatim>\<open>name\<close> element.
\<close>

theorem round_trip_loses_name:
  "createGPXdoc [indented_waypoint_tree] False = Inr (Gpx_Doc named_waypoint_doc, False)
   \<and> ConvertGPXDocToXmlDoc (Some named_waypoint_doc) = Some named_waypoint_tree
   \<and> createGPXdoc [named_waypoint_tree] False
       = Inr (Gpx_Doc (named_waypoint_doc\<lparr>gpx_waypoints := [point 1 2]\<rparr>), False)
   \<and> ConvertGPXDocToXmlDoc (Some (named_waypoint_doc\<lparr>gpx_waypoints := [point 1 2]\<rparr>))
       = Some unnamed_waypoint_tree
   \<and> unnamed_waypoint_tree \<noteq> named_waypoint_tree"
proof -
  have 0: "createGPXdoc [indented_waypoint_tree] False
             = Inr (Gpx_Doc named_waypoint_doc, False)"
    by (simp add: createGPXdoc_def indented_waypoint_tree_def white_space_def
          named_waypoint_doc_def build_defs tag_defs strtod_version strtod_one strtod_two)
  have 1: "ConvertGPXDocToXmlDoc (Some named_waypoint_doc) = Some named_waypoint_tree"
    by (simp add: convert_defs named_waypoint_doc_def named_waypoint_tree_def tag_defs
          printf_version printf_one printf_two)
  have 2: "createGPXdoc [named_waypoint_tree] False
       = Inr (Gpx_Doc (named_waypoint_doc\<lparr>gpx_waypoints := [point 1 2]\<rparr>), False)"
    by (simp add: createGPXdoc_def named_waypoint_tree_def named_waypoint_doc_def build_defs
          tag_defs strtod_version strtod_one strtod_two point_def)
  have 3: "ConvertGPXDocToXmlDoc (Some (named_waypoint_doc\<lparr>gpx_waypoints := [point 1 2]\<rparr>))
       = Some unnamed_waypoint_tree"
    by (simp add: convert_defs named_waypoint_doc_def unnamed_waypoint_tree_def tag_defs
          printf_version printf_one printf_two point_def)
  have 4: "unnamed_waypoint_tree \<noteq> named_waypoint_tree"
    by (simp add: unnamed_waypoint_tree_def named_waypoint_tree_def)
  show ?thesis using 0 1 2 3 4 by blast
qed

subsection \<open>A root element without a creator\<close>

text \<open>
  C2, as the claim states it, fails: the tree whose root has a \<^verbatim>\<open>version\<close> attribute and no
  \<^verbatim>\<open>creator\<close> attribute is built into a document, with the empty string as its creator.
\<close>

theorem missing_creator_builds_document:
  "CREATOR \<notin> fst ` set (node_properties no_creator_tree)
   \<and> createGPXdoc [no_creator_tree] False = Inr (Gpx_Doc no_creator_doc, False)
   \<and> gpx_creator no_creator_doc = ''''"
  by (simp add: createGPXdoc_def no_creator_tree_def no_creator_doc_def build_defs tag_defs
        strtod_version)

lemma gpx_attr_loop_no_creator:
  "CREATOR \<notin> fst ` set attrs \<Longrightarrow>
   \<exists>loc'. gpx_attr_loop attrs (Some href) loc = Inr loc' \<and> gpxCreator loc' = gpxCreator loc"
proof (induction attrs arbitrary: loc)
  case Nil
  then show ?case by simp
next
  case (Cons a attrs)
  obtain attrName cont where a: "a = (attrName, cont)" by (cases a)
  from Cons.prems a have n: "attrName \<noteq> CREATOR" and r: "CREATOR \<notin> fst ` set attrs"
    by auto
  show ?case
    using Cons.IH [OF r, of "loc\<lparr>gpxSchema := href, gpxVersion := cont\<rparr>"]
      Cons.IH [OF r, of "loc\<lparr>gpxSchema := href\<rparr>"] n
    by (simp add: a)
qed

lemma root_without_creator:
  assumes "node_name root_node = GPX" and "node_ns root_node = Some href"
    and "CREATOR \<notin> fst ` set (node_properties root_node)"
  shows "\<exists>loc d. process_element root_node initial_locals Gpx_Allocated = Continue (loc, Gpx_Doc d)
           \<and> gpx_creator d = '''' \<and> gpx_waypoints d = [] \<and> gpx_routes d = []
           \<and> gpx_tracks d = []"
proof -
  obtain loc' where l: "gpx_attr_loop (node_properties root_node) (Some href) initial_locals = Inr loc'"
    and c0: "gpxCreator loc' = gpxCreator initial_locals"
    using gpx_attr_loop_no_creator [OF assms(3)] by blast
  have c: "gpxCreator loc' = ''''"
    using c0 by (simp add: initial_locals_def)
  have s: "scan_element root_node initial_locals Gpx_Allocated = Continue (initial_locals, Gpx_Allocated)"
    using assms(1) by (simp add: scan_element_def tag_defs)
  have a: "scan_attributes root_node initial_locals = Inr loc'"
    using assms(1,2) l by (simp add: scan_attributes_def)
  show ?thesis
    using assms(1) c
    by (simp add: process_element_def s a build_element_def buildGPXdoc_def)
qed

lemma place_waypoint_creator:
  "place_waypoint nm w (Gpx_Doc d) = Continue g \<Longrightarrow>
   \<exists>d1. g = Gpx_Doc d1 \<and> gpx_creator d1 = gpx_creator d"
  by (auto simp: place_waypoint_def deref_def buildTrack_def buildRoute_def
      split: if_splits option.splits)

lemma scan_element_creator:
  "scan_element n loc (Gpx_Doc d) = Continue (loc', g) \<Longrightarrow>
   \<exists>d1. g = Gpx_Doc d1 \<and> gpx_creator d1 = gpx_creator d"
  by (auto simp: scan_element_def deref_def buildTrack_def Let_def
      split: if_splits option.splits)

lemma build_element_creator:
  assumes "node_name n \<noteq> GPX" and "build_element n loc (Gpx_Doc d) = Continue (loc', g)"
  shows "\<exists>d1. g = Gpx_Doc d1 \<and> gpx_creator d1 = gpx_creator d"
proof -
  consider (pt) "node_name n = TRKPT \<or> node_name n = WPT \<or> node_name n = RTEPT"
    | (trk) "\<not> (node_name n = TRKPT \<or> node_name n = WPT \<or> node_name n = RTEPT)"
        "node_name n = TRK"
    | (rte) "\<not> (node_name n = TRKPT \<or> node_name n = WPT \<or> node_name n = RTEPT)"
        "node_name n \<noteq> TRK" "node_name n = RTE"
    | (other) "\<not> (node_name n = TRKPT \<or> node_name n = WPT \<or> node_name n = RTEPT)"
        "node_name n \<noteq> TRK" "node_name n \<noteq> RTE"
    by blast
  then show ?thesis
  proof cases
    case pt
    with assms obtain w g' where "place_waypoint (node_name n) w (Gpx_Doc d) = Continue g'"
      and "g = g'"
      by (auto simp: build_element_def split: option.splits step.splits)
    then show ?thesis using place_waypoint_creator by blast
  next
    case trk
    with assms show ?thesis
      by (auto simp: build_element_def deref_def split: option.splits)
  next
    case rte
    with assms show ?thesis
      by (auto simp: build_element_def deref_def split: option.splits)
  next
    case other
    with assms show ?thesis
      by (auto simp: build_element_def)
  qed
qed

lemma process_element_creator:
  assumes "node_name n \<noteq> GPX" and "process_element n loc (Gpx_Doc d) = Continue (loc', g)"
  shows "\<exists>d1. g = Gpx_Doc d1 \<and> gpx_creator d1 = gpx_creator d"
proof -
  from assms(2) obtain loc1 g1 loc2 where s: "scan_element n loc (Gpx_Doc d) = Continue (loc1, g1)"
    and b: "build_element n loc2 g1 = Continue (loc', g)"
    by (auto simp: process_element_def split: step.splits sum.splits)
  from scan_element_creator [OF s] obtain d1 where "g1 = Gpx_Doc d1"
    and "gpx_creator d1 = gpx_creator d" by blast
  with build_element_creator [OF assms(1)] b show ?thesis by metis
qed

lemma place_waypoint_null: "place_waypoint nm w Gpx_NULL = Continue g \<Longrightarrow> g = Gpx_NULL"
  by (auto simp: place_waypoint_def deref_def split: if_splits)

lemma process_element_null:
  assumes "process_element n loc Gpx_NULL = Continue (loc', g)"
  shows "g = Gpx_NULL"
proof -
  from assms obtain loc1 g1 loc2 where s: "scan_element n loc Gpx_NULL = Continue (loc1, g1)"
    and b: "build_element n loc2 g1 = Continue (loc', g)"
    by (auto simp: process_element_def split: step.splits sum.splits)
  from s have g1: "g1 = Gpx_NULL"
    by (auto simp: scan_element_def deref_def Let_def split: if_splits)
  from b show ?thesis
    unfolding g1
    by (auto simp: build_element_def buildGPXdoc_def deref_def
        split: if_splits option.splits step.splits dest: place_waypoint_null)
qed

lemma buildObjects_null:
  "buildObjects nodes loc gpx parseFail = Inr (g, parseFail') \<Longrightarrow> gpx = Gpx_NULL \<Longrightarrow>
   g = Gpx_NULL"
proof (induction nodes loc gpx parseFail arbitrary: g parseFail' rule: buildObjects.induct)
  case (1 loc gpx parseFail)
  then show ?case by simp
next
  case (2 cur_node siblings loc gpx parseFail)
  let ?st = "if node_type cur_node = XML_ELEMENT_NODE then process_element cur_node loc gpx
             else Continue (loc, gpx)"
  show ?case
  proof (cases ?st)
    case (Fault f)
    with "2.prems"(1) show ?thesis by simp
  next
    case ParseFailed
    with "2.prems"(1) show ?thesis by simp
  next
    case (Continue p)
    obtain loc' gpx' where p: "p = (loc', gpx')" by (cases p)
    have gn: "gpx' = Gpx_NULL"
      using Continue p "2.prems"(2) process_element_null [of cur_node loc loc' gpx']
      by (auto split: if_splits)
    show ?thesis
    proof (cases parseFail)
      case True
      with Continue p "2.prems"(1) show ?thesis by simp
    next
      case False
      with Continue p "2.prems"(1)
      obtain gpx'' pf'' where
        c: "buildObjects (node_children cur_node) initial_locals gpx' parseFail = Inr (gpx'', pf'')"
        and r: "buildObjects siblings loc' gpx'' pf'' = Inr (g, parseFail')"
        by (auto split: sum.splits)
      have "gpx'' = Gpx_NULL"
        using "2.IH"(1) [OF Continue p [symmetric] _ c gn] False by simp
      then show ?thesis
        using "2.IH"(2) [OF Continue p [symmetric] _ c _ r] False by simp
    qed
  qed
qed

lemma buildObjects_creator:
  "buildObjects nodes loc gpx parseFail = Inr (g, parseFail') \<Longrightarrow> gpx = Gpx_Doc d \<Longrightarrow>
   sum_list (map count_gpx_elements nodes) = 0 \<Longrightarrow>
   g = Gpx_NULL \<or> (\<exists>d'. g = Gpx_Doc d' \<and> gpx_creator d' = gpx_creator d)"
proof (induction nodes loc gpx parseFail arbitrary: d g parseFail' rule: buildObjects.induct)
  case (1 loc gpx parseFail)
  then show ?case by auto
next
  case (2 cur_node siblings loc gpx parseFail)
  let ?st = "if node_type cur_node = XML_ELEMENT_NODE then process_element cur_node loc gpx
             else Continue (loc, gpx)"
  from "2.prems"(3) have z: "count_gpx_elements cur_node = 0"
    and zs: "sum_list (map count_gpx_elements siblings) = 0" by simp_all
  from z have zc: "sum_list (map count_gpx_elements (node_children cur_node)) = 0"
    and ng: "node_type cur_node = XML_ELEMENT_NODE \<Longrightarrow> node_name cur_node \<noteq> GPX"
    by (cases cur_node; simp split: if_splits)+
  show ?case
  proof (cases ?st)
    case (Fault f)
    with "2.prems"(1) show ?thesis by simp
  next
    case ParseFailed
    with "2.prems"(1) show ?thesis by auto
  next
    case (Continue p)
    obtain loc' gpx' where p: "p = (loc', gpx')" by (cases p)
    have "\<exists>d1. gpx' = Gpx_Doc d1 \<and> gpx_creator d1 = gpx_creator d"
      using Continue p "2.prems"(2) ng process_element_creator [of cur_node loc d loc' gpx']
      by (auto split: if_splits)
    then obtain d1 where g1: "gpx' = Gpx_Doc d1" and c1: "gpx_creator d1 = gpx_creator d"
      by blast
    show ?thesis
    proof (cases parseFail)
      case True
      with Continue p "2.prems"(1) show ?thesis by auto
    next
      case False
      with Continue p "2.prems"(1)
      obtain gpx'' pf'' where
        c: "buildObjects (node_children cur_node) initial_locals gpx' parseFail = Inr (gpx'', pf'')"
        and r: "buildObjects siblings loc' gpx'' pf'' = Inr (g, parseFail')"
        by (auto split: sum.splits)
      have "gpx'' = Gpx_NULL \<or> (\<exists>d2. gpx'' = Gpx_Doc d2 \<and> gpx_creator d2 = gpx_creator d1)"
        using "2.IH"(1) [OF Continue p [symmetric] _ c g1 zc] False by simp
      then show ?thesis
      proof
        assume "gpx'' = Gpx_NULL"
        then show ?thesis using buildObjects_null [OF r] by simp
      next
        assume "\<exists>d2. gpx'' = Gpx_Doc d2 \<and> gpx_creator d2 = gpx_creator d1"
        then obtain d2 where g2: "gpx'' = Gpx_Doc d2" and c2: "gpx_creator d2 = gpx_creator d1"
          by blast
        show ?thesis
          using "2.IH"(2) [OF Continue p [symmetric] _ c _ r g2 zs] False c1 c2 by simp
      qed
    qed
  qed
qed

lemma empty_creator_invalid: "gpx_creator d = '''' \<Longrightarrow> fst (IsValidGPXdoc d) = False"
  by (simp add: IsValidGPXdoc_def)

text \<open>
  C2, amended. For a tree whose root is a \<^verbatim>\<open>gpx\<close> element with a namespace and without a
  \<^verbatim>\<open>creator\<close> attribute, the root element is built into a document with the empty string
  as its creator: the build does not fail at the missing attribute. When the tree holds no
  other \<^verbatim>\<open>gpx\<close> element and \<^verbatim>\<open>createGPXdoc\<close> returns a document, the creator of that
  document is empty and \<^verbatim>\<open>IsValidGPXdoc\<close> returns false for it.
\<close>

theorem missing_creator_empty:
  assumes "node_type root_node = XML_ELEMENT_NODE" and "node_name root_node = GPX"
    and "node_ns root_node = Some href"
    and "CREATOR \<notin> fst ` set (node_properties root_node)"
  shows "(\<exists>loc d. process_element root_node initial_locals Gpx_Allocated
                     = Continue (loc, Gpx_Doc d) \<and> gpx_creator d = '''')
         \<and> (sum_list (map count_gpx_elements (node_children root_node @ rest)) = 0
              \<and> createGPXdoc (root_node # rest) False = Inr (Gpx_Doc doc, parseFail')
              \<longrightarrow> gpx_creator doc = '''' \<and> fst (IsValidGPXdoc doc) = False)"
proof -
  obtain loc d where
    pe: "process_element root_node initial_locals Gpx_Allocated = Continue (loc, Gpx_Doc d)"
    and cd: "gpx_creator d = ''''"
    using root_without_creator [OF assms(2,3,4)] by blast
  have "gpx_creator doc = ''''"
    if z: "sum_list (map count_gpx_elements (node_children root_node @ rest)) = 0"
      and b: "createGPXdoc (root_node # rest) False = Inr (Gpx_Doc doc, parseFail')"
  proof -
    from b obtain pf where
      bo: "buildObjects (root_node # rest) initial_locals Gpx_Allocated False
             = Inr (Gpx_Doc doc, pf)"
      by (auto simp: createGPXdoc_def split: sum.splits if_splits)
    from bo obtain gpx'' pf'' where
      c: "buildObjects (node_children root_node) initial_locals (Gpx_Doc d) False
            = Inr (gpx'', pf'')"
      and r: "buildObjects rest loc gpx'' pf'' = Inr (Gpx_Doc doc, pf)"
      using assms(1) pe by (auto split: sum.splits)
    from z have zc: "sum_list (map count_gpx_elements (node_children root_node)) = 0"
      and zr: "sum_list (map count_gpx_elements rest) = 0" by simp_all
    have "gpx'' \<noteq> Gpx_NULL"
      using buildObjects_null [OF r] by auto
    then obtain d2 where g2: "gpx'' = Gpx_Doc d2" and c2: "gpx_creator d2 = gpx_creator d"
      using buildObjects_creator [OF c refl zc] by auto
    have "gpx_creator doc = gpx_creator d2"
      using buildObjects_creator [OF r g2 zr] by auto
    with c2 cd show ?thesis by simp
  qed
  then show ?thesis
    using pe cd empty_creator_invalid [of doc] by blast
qed

theorem missing_creator_empty_witness:
  "node_type no_creator_tree = XML_ELEMENT_NODE \<and> node_name no_creator_tree = GPX
   \<and> node_ns no_creator_tree = Some topografix
   \<and> CREATOR \<notin> fst ` set (node_properties no_creator_tree)
   \<and> sum_list (map count_gpx_elements (node_children no_creator_tree @ [])) = 0
   \<and> createGPXdoc [no_creator_tree] False = Inr (Gpx_Doc no_creator_doc, False)
   \<and> gpx_creator no_creator_doc = '''' \<and> fst (IsValidGPXdoc no_creator_doc) = False"
proof -
  have h: "node_type no_creator_tree = XML_ELEMENT_NODE" "node_name no_creator_tree = GPX"
    "node_ns no_creator_tree = Some topografix"
    "CREATOR \<notin> fst ` set (node_properties no_creator_tree)"
    by (simp_all add: no_creator_tree_def tag_defs)
  have z: "sum_list (map count_gpx_elements (node_children no_creator_tree @ [])) = 0"
    by (simp add: no_creator_tree_def)
  have b: "createGPXdoc [no_creator_tree] False = Inr (Gpx_Doc no_creator_doc, False)"
    by (simp add: createGPXdoc_def no_creator_tree_def no_creator_doc_def build_defs tag_defs
          strtod_version)
  show ?thesis
    using missing_creator_empty [OF h, of "[]" no_creator_doc False] h z b by blast
qed

subsection \<open>Coordinates that are not numbers\<close>













end
